theory Spec2Isabelle
  imports Complex_Main
begin

section \<open>Rotated EOF analysis, analytic signal and complex MCA of xeofs\<close>

text \<open>
  A shallow embedding of \<^verbatim>\<open>xeofs/models/eof_rotator.py\<close>,
  \<^verbatim>\<open>xeofs/utils/xarray_utils.py\<close> and \<^verbatim>\<open>xeofs/models/mca.py\<close>.

  Conventions of the embedding.
  \<^item> Floating-point numbers are exact reals and complex numbers; NaN and infinities are
    not represented.
  \<^item> A \<^verbatim>\<open>DataArray\<close> with a \<^verbatim>\<open>mode\<close> dimension is the list of its modes,
    in the order of the labels \<open>1, 2, \<dots>\<close>; a mode of the loadings is the list of its
    features, a mode of the scores is the list of its samples. The extent of the other
    dimension of an array without any mode is not recorded.
  \<^item> xarray aligns the operands of a binary operation on their common labels (inner
    join). All mode labels are prefixes \<open>1..k\<close>, so alignment is \<^const>\<open>zip\<close>.
  \<^item> A Python exception is a value \<open>Inl e\<close>; a normal return is \<open>Inr v\<close>.
\<close>

subsection \<open>Exceptions\<close>

datatype py_error =
  NotImplementedError | LinAlgError | ValueError | TypeError | IndexError | AttributeError

type_synonym cvec = "complex list"
type_synonym cmat = "complex list list"

text \<open>Running a list of fallible computations, stopping at the first exception.\<close>

fun sequence :: "('e + 'a) list \<Rightarrow> 'e + 'a list" where
  "sequence [] = Inr []"
| "sequence (x # xs) =
     (case x of
        Inl e \<Rightarrow> Inl e
      | Inr v \<Rightarrow> (case sequence xs of Inl e \<Rightarrow> Inl e | Inr vs \<Rightarrow> Inr (v # vs)))"

text \<open>Sequencing: the exception of the first step, or the second step on its value.\<close>

definition and_then :: "'e + 'a \<Rightarrow> ('a \<Rightarrow> 'e + 'b) \<Rightarrow> 'e + 'b" where
  "and_then x f = (case x of Inl e \<Rightarrow> Inl e | Inr v \<Rightarrow> f v)"

subsection \<open>numpy primitives used by the rotator\<close>

text \<open>
  \<^verbatim>\<open>np.sign\<close>. On a real array it is the sign function with \<open>sign 0 = 0\<close>. On a
  complex array numpy (before 2.0) documents \<^verbatim>\<open>sign(x.real) + 0j if x.real != 0
  else sign(x.imag) + 0j\<close>. A real number is the complex number with imaginary part 0,
  where both agree.
\<close>

definition np_sign :: "complex \<Rightarrow> complex" where
  "np_sign z = (if Re z \<noteq> 0 then of_real (sgn (Re z)) else of_real (sgn (Im z)))"

text \<open>
  \<^verbatim>\<open>argmax\<close> along an axis: the first index of the largest entry; numpy raises
  \<^verbatim>\<open>ValueError\<close> on an empty axis. The loop keeps the running best index \<open>best\<close>
  and its value \<open>bv\<close>; \<open>i\<close> is the index of the head of the rest.
\<close>

fun argmax_loop :: "real list \<Rightarrow> nat \<Rightarrow> nat \<Rightarrow> real \<Rightarrow> nat" where
  "argmax_loop [] i best bv = best"
| "argmax_loop (x # xs) i best bv =
     (if bv < x then argmax_loop xs (Suc i) i x else argmax_loop xs (Suc i) best bv)"

definition np_argmax :: "real list \<Rightarrow> py_error + nat" where
  "np_argmax xs = (case xs of [] \<Rightarrow> Inl ValueError | x # rest \<Rightarrow> Inr (argmax_loop rest 1 0 x))"

text \<open>
  \<^verbatim>\<open>argsort()\<close> with numpy's default \<^verbatim>\<open>kind='quicksort'\<close>, an introsort: the indices
  that sort the array in ascending order. An array of at most 16 entries is sorted by
  insertion, which keeps equal entries in their order; \<^const>\<open>sort_key\<close> is that
  insertion sort. A longer array is first partitioned around the median of three entries,
  which moves equal entries past each other: the sort is not stable, and the order it
  leaves equal entries in is not part of its contract. What it returns on a longer array
  is the parameter \<open>introsort\<close>.
\<close>

definition np_argsort :: "(real list \<Rightarrow> nat list) \<Rightarrow> real list \<Rightarrow> nat list" where
  "np_argsort introsort v =
     (if length v \<le> 16 then sort_key (\<lambda>i. v ! i) [0..<length v] else introsort v)"


text \<open>
  \<^verbatim>\<open>isel(mode=idx)\<close>: positional selection of modes by an index array; an index out
  of range raises \<^verbatim>\<open>IndexError\<close>.
\<close>

definition isel_mode :: "nat list \<Rightarrow> 'a list \<Rightarrow> py_error + 'a list" where
  "isel_mode idx xs =
     (if list_all (\<lambda>i. i < length xs) idx then Inr (map (\<lambda>i. xs ! i) idx) else Inl IndexError)"

subsection \<open>Steps of \<^verbatim>\<open>EOFRotator._fit_algorithm\<close>: reordering and sign\<close>

text \<open>
  Line 130, \<^verbatim>\<open>expvar = (abs(rot_loadings) ** 2).sum(self.feature_name)\<close>: the variance
  of each mode.
\<close>

definition expvar_of :: "cmat \<Rightarrow> real list" where
  "expvar_of rot_loadings = map (\<lambda>col. sum_list (map (\<lambda>z. (cmod z)\<^sup>2) col)) rot_loadings"

text \<open>Line 133, \<^verbatim>\<open>idx_sort = expvar.compute().argsort()[::-1]\<close>.\<close>

definition idx_sort_of :: "(real list \<Rightarrow> nat list) \<Rightarrow> real list \<Rightarrow> nat list" where
  "idx_sort_of introsort expvar = rev (np_argsort introsort expvar)"

text \<open>
  Line 169, \<^verbatim>\<open>idx_max_value = abs(rot_loadings).argmax(self.feature_name)\<close>: for every
  mode the feature index of the largest magnitude.
\<close>

definition idx_max_value_of :: "cmat \<Rightarrow> py_error + nat list" where
  "idx_max_value_of rot_loadings = sequence (map (\<lambda>col. np_argmax (map cmod col)) rot_loadings)"

text \<open>
  Lines 170-172, \<^verbatim>\<open>modes_sign = np.sign(rot_loadings.isel(feature=idx_max_value))\<close>:
  the indexer has the dimension \<^verbatim>\<open>mode\<close>, so every mode is read at its own feature
  index.
\<close>

definition modes_sign_of :: "cmat \<Rightarrow> py_error + cvec" where
  "modes_sign_of rot_loadings =
     (case idx_max_value_of rot_loadings of
        Inl e \<Rightarrow> Inl e
      | Inr idx \<Rightarrow> Inr (map2 (\<lambda>col i. np_sign (col ! i)) rot_loadings idx))"

text \<open>
  Lines 177-178, \<^verbatim>\<open>rot_components * modes_sign\<close> and \<^verbatim>\<open>scores * modes_sign\<close>:
  every mode is multiplied by its sign.
\<close>

definition times_mode :: "cmat \<Rightarrow> cvec \<Rightarrow> cmat" where
  "times_mode a v = map2 (\<lambda>col s. map (\<lambda>z. z * s) col) a v"

text \<open>
  The first index of the largest entry of a list: what \<^verbatim>\<open>argmax\<close> returns.
\<close>

definition first_max_index :: "real list \<Rightarrow> nat \<Rightarrow> bool" where
  "first_max_index xs i =
     (i < length xs \<and> list_all (\<lambda>x. x \<le> xs ! i) xs \<and> list_all (\<lambda>x. x < xs ! i) (take i xs))"

text \<open>
  The sign of one mode: the value of \<^verbatim>\<open>np.sign\<close> at the \<^verbatim>\<open>argmax\<close> of the
  magnitudes, as \<open>modes_sign_of\<close> computes it for every mode.
\<close>

definition sign_rel :: "cvec \<Rightarrow> complex \<Rightarrow> bool" where
  "sign_rel col sk = (\<exists>i. np_argmax (map cmod col) = Inr i \<and> sk = np_sign (col ! i))"

subsection \<open>Arithmetic of arrays with a mode dimension\<close>

text \<open>
  \<^verbatim>\<open>a * v\<close> and \<^verbatim>\<open>a / v\<close> for a complex array \<open>a\<close> with a mode dimension and a
  real array \<open>v\<close> over the modes. Division by zero is \<open>inf\<close> or \<open>nan\<close> in numpy and
  is not represented.
\<close>

definition times_real_mode :: "cmat \<Rightarrow> real list \<Rightarrow> cmat" where
  "times_real_mode a v = map2 (\<lambda>col r. map (\<lambda>z. z * of_real r) col) a v"

definition div_real_mode :: "cmat \<Rightarrow> real list \<Rightarrow> cmat" where
  "div_real_mode a v = map2 (\<lambda>col r. map (\<lambda>z. z / of_real r) col) a v"

text \<open>
  \<^verbatim>\<open>sel(mode=slice(1, n_modes))\<close>: selection by label. The labels are \<open>1, 2, \<dots>\<close>;
  a label slice keeps the labels between its bounds and raises nothing when a bound lies
  outside the labels present.
\<close>

definition sel_modes :: "int \<Rightarrow> 'a list \<Rightarrow> 'a list" where
  "sel_modes n xs = take (nat n) xs"

text \<open>
  \<^verbatim>\<open>xr.dot(data, components)\<close>: \<open>data\<close> is the list of its samples, each the list
  of its features; the common dimension \<^verbatim>\<open>feature\<close> is summed.
\<close>

definition xr_dot_feature :: "cmat \<Rightarrow> cmat \<Rightarrow> cmat" where
  "xr_dot_feature data components =
     map (\<lambda>comp. map (\<lambda>row. sum_list (map2 (*) row comp)) data) components"

subsection \<open>Labelled matrices\<close>

text \<open>
  The rotation matrix is a \<^verbatim>\<open>DataArray\<close> with the two dimensions \<^verbatim>\<open>mode_m\<close> and
  \<^verbatim>\<open>mode_n\<close>. \<open>vals a ! i ! j\<close> is the entry at position \<open>i\<close> of the first and
  \<open>j\<close> of the second dimension.
\<close>

record data_array =
  dims :: "string \<times> string"
  vals :: cmat

definition ncols :: "'a list list \<Rightarrow> nat" where
  "ncols m = (case m of [] \<Rightarrow> 0 | r # _ \<Rightarrow> length r)"

definition mat_transpose :: "'a list list \<Rightarrow> 'a list list" where
  "mat_transpose m = map (\<lambda>j. map (\<lambda>row. row ! j) m) [0..<ncols m]"

text \<open>
  \<^verbatim>\<open>DataArray.transpose(*dims)\<close>: reorders the axes to the order named; xarray raises
  \<^verbatim>\<open>ValueError\<close> when the names are not a permutation of the array's dimensions.
\<close>

definition xr_transpose :: "data_array \<Rightarrow> string \<times> string \<Rightarrow> py_error + data_array" where
  "xr_transpose a d =
     (if d = dims a then Inr a
      else if d = (snd (dims a), fst (dims a)) then Inr \<lparr>dims = d, vals = mat_transpose (vals a)\<rparr>
      else Inl ValueError)"

definition xr_conj :: "data_array \<Rightarrow> data_array" where
  "xr_conj a = a\<lparr>vals := map (map cnj) (vals a)\<rparr>"

text \<open>
  \<^verbatim>\<open>DataArray.rename({old: new})\<close>; renaming a name that is not present raises
  \<^verbatim>\<open>ValueError\<close>.
\<close>

definition xr_rename :: "data_array \<Rightarrow> string \<Rightarrow> string \<Rightarrow> py_error + data_array" where
  "xr_rename a old new =
     (if fst (dims a) = old then Inr (a\<lparr>dims := (new, snd (dims a))\<rparr>)
      else if snd (dims a) = old then Inr (a\<lparr>dims := (fst (dims a), new)\<rparr>)
      else Inl ValueError)"

text \<open>
  \<^verbatim>\<open>xr.apply_ufunc(f, a, input_core_dims=[d_in], output_core_dims=[d_out])\<close>: the core
  dimensions are moved last in the order given, \<open>f\<close> is applied to the values, and the
  result carries the output core dimensions.
\<close>

definition apply_ufunc_core ::
  "(cmat \<Rightarrow> py_error + cmat) \<Rightarrow> data_array \<Rightarrow> string \<times> string \<Rightarrow> string \<times> string \<Rightarrow>
   py_error + data_array" where
  "apply_ufunc_core f a input_core_dims output_core_dims =
     and_then (xr_transpose a input_core_dims) (\<lambda>a'.
     and_then (f (vals a')) (\<lambda>v.
     Inr \<lparr>dims = output_core_dims, vals = v\<rparr>))"

text \<open>
  \<^verbatim>\<open>xr.dot(scores, RinvT, dims="mode_m")\<close>, where \<open>scores\<close> has the dimensions
  \<^verbatim>\<open>(sample, mode_m)\<close> (the list over \<^verbatim>\<open>mode_m\<close> of the sample series) and
  \<open>RinvT\<close> the dimensions \<^verbatim>\<open>mode_m\<close> and \<^verbatim>\<open>mode\<close>: the result has a mode for
  every label of \<^verbatim>\<open>mode\<close>, the sum over \<^verbatim>\<open>mode_m\<close> of the series weighted by the
  entries of \<open>RinvT\<close>.
\<close>

definition lincomb :: "cmat \<Rightarrow> cvec \<Rightarrow> cvec" where
  "lincomb series cs = map (\<lambda>s. sum_list (map2 (\<lambda>v c. v ! s * c) series cs)) [0..<ncols series]"

definition xr_dot_mode_m :: "cmat \<Rightarrow> data_array \<Rightarrow> py_error + cmat" where
  "xr_dot_mode_m scores RinvT =
     and_then (xr_transpose RinvT (''mode'', ''mode_m'')) (\<lambda>r.
     Inr (map (\<lambda>row. lincomb scores row) (vals r)))"

subsection \<open>\<^verbatim>\<open>EOFRotator\<close>\<close>

text \<open>\<^verbatim>\<open>self._params\<close>.\<close>

record params =
  n_modes :: int
  power :: int
  max_iter :: int
  rtol :: real

text \<open>
  The fitted \<^verbatim>\<open>EOF\<close> model handed to \<^verbatim>\<open>fit\<close>. Its class is in
  \<^verbatim>\<open>xeofs/models/eof.py\<close>; the rotator reads the entries of \<^verbatim>\<open>model.data\<close> and
  the results of the methods \<^verbatim>\<open>explained_variance()\<close> and \<^verbatim>\<open>singular_values()\<close>,
  which are the fields of this record.
\<close>

record eof_model =
  model_input_data :: cmat
  model_components :: cmat
  model_scores :: cmat
  model_norms :: "real list"
  model_total_variance :: real
  model_explained_variance :: "real list"
  model_singular_values :: "real list"

text \<open>
  The numerical routines the rotator calls: \<^verbatim>\<open>promax\<close> of
  \<^verbatim>\<open>xeofs/utils/rotation.py\<close>, called with the loadings and the keywords
  \<^verbatim>\<open>power\<close>, \<^verbatim>\<open>max_iter\<close>, \<^verbatim>\<open>rtol\<close>, which returns the rotated loadings, the
  rotation matrix with dimensions \<^verbatim>\<open>(mode_m, mode_n)\<close> and the correlation matrix; and
  \<^verbatim>\<open>np.linalg.inv\<close>, which raises \<^verbatim>\<open>LinAlgError\<close> on a singular matrix; and the
  introsort of \<^verbatim>\<open>argsort\<close> on arrays of more than 16 entries.
\<close>

record backend =
  promax :: "cmat \<Rightarrow> int \<Rightarrow> int \<Rightarrow> real \<Rightarrow> py_error + cmat \<times> cmat \<times> cmat"
  linalg_inv :: "cmat \<Rightarrow> py_error + cmat"
  introsort :: "real list \<Rightarrow> nat list"

text \<open>\<^verbatim>\<open>self.data\<close> of the rotator, by key.\<close>

record data_container =
  data_input_data :: cmat
  data_components :: cmat
  data_scores :: cmat
  data_norms :: "real list"
  data_explained_variance :: "real list"
  data_total_variance :: real
  data_idx_modes_sorted :: "nat list"
  data_rotation_matrix :: data_array
  data_phi_matrix :: data_array
  data_modes_sign :: cvec

text \<open>The rotator after \<^verbatim>\<open>fit\<close>: \<^verbatim>\<open>self._params\<close>, \<^verbatim>\<open>self.model\<close>, \<^verbatim>\<open>self.data\<close>.\<close>

record rotator =
  self_params :: params
  self_model :: eof_model
  self_data :: data_container

text \<open>\<^verbatim>\<open>EOFRotator._compute_rot_mat_inv_trans\<close>, lines 233-257.\<close>

definition compute_rot_mat_inv_trans ::
  "(cmat \<Rightarrow> py_error + cmat) \<Rightarrow> params \<Rightarrow> data_array \<Rightarrow> string \<times> string \<Rightarrow> py_error + data_array" where
  "compute_rot_mat_inv_trans np_inv ps rotation_matrix input_dims =
     (if power ps > 1 then
        and_then (apply_ufunc_core np_inv rotation_matrix input_dims (snd input_dims, fst input_dims))
          (\<lambda>rotation_matrix. xr_transpose (xr_conj rotation_matrix) input_dims)
      else Inr rotation_matrix)"

text \<open>
  \<^verbatim>\<open>EOFRotator._fit_algorithm\<close>, lines 94-194. Renaming the dimension of the scores
  (line 158) changes no value of the list of modes. The metadata \<^verbatim>\<open>attrs\<close> (model
  name, version, date) is left out.
\<close>

definition fit_algorithm :: "backend \<Rightarrow> params \<Rightarrow> eof_model \<Rightarrow> py_error + rotator" where
  "fit_algorithm be ps model =
     (let components = sel_modes (n_modes ps) (model_components model);
          expvar = sel_modes (n_modes ps) (model_explained_variance model);
          loadings = times_real_mode components (map sqrt expvar)
      in and_then (promax be loadings (power ps) (max_iter ps) (rtol ps))
           (\<lambda>(rot_loadings, rot_matrix, phi_matrix).
      let rot_matrix = \<lparr>dims = (''mode_m'', ''mode_n''), vals = rot_matrix\<rparr>;
          phi_matrix = \<lparr>dims = (''mode_m'', ''mode_n''), vals = phi_matrix\<rparr>;
          expvar = expvar_of rot_loadings;
          idx_sort = idx_sort_of (introsort be) expvar
      in and_then (isel_mode idx_sort expvar) (\<lambda>expvar.
         and_then (isel_mode idx_sort rot_loadings) (\<lambda>rot_loadings.
      let rot_components = div_real_mode rot_loadings (map sqrt expvar);
          n_samples = int (length (model_input_data model));
          norms = map (\<lambda>e. sqrt (e * of_int (n_samples - 1))) expvar;
          svals = sel_modes (n_modes ps) (model_norms model);
          scores = sel_modes (n_modes ps) (model_scores model);
          scores = div_real_mode scores svals
      in and_then (compute_rot_mat_inv_trans (linalg_inv be) ps rot_matrix (''mode_m'', ''mode_n''))
           (\<lambda>RinvT.
         and_then (xr_rename RinvT ''mode_n'' ''mode'') (\<lambda>RinvT.
         and_then (xr_dot_mode_m scores RinvT) (\<lambda>scores.
         and_then (isel_mode idx_sort scores) (\<lambda>scores.
      let scores = times_real_mode scores norms
      in and_then (modes_sign_of rot_loadings) (\<lambda>modes_sign.
      let rot_components = times_mode rot_components modes_sign;
          scores = times_mode scores modes_sign
      in Inr \<lparr>self_params = ps, self_model = model,
               self_data = \<lparr>data_input_data = model_input_data model,
                 data_components = rot_components,
                 data_scores = scores,
                 data_norms = norms,
                 data_explained_variance = expvar,
                 data_total_variance = model_total_variance model,
                 data_idx_modes_sorted = idx_sort,
                 data_rotation_matrix = rot_matrix,
                 data_phi_matrix = phi_matrix,
                 data_modes_sign = modes_sign\<rparr>\<rparr>)))))))))"

text \<open>\<^verbatim>\<open>EOFRotator._transform_algorithm\<close>, lines 196-226.\<close>

definition transform_algorithm ::
  "(cmat \<Rightarrow> py_error + cmat) \<Rightarrow> rotator \<Rightarrow> cmat \<Rightarrow> py_error + cmat" where
  "transform_algorithm np_inv self data =
     (let svals = sel_modes (n_modes (self_params self)) (model_singular_values (self_model self));
          pseudo_norms = data_norms (self_data self);
          components = sel_modes (n_modes (self_params self)) (model_components (self_model self));
          projections = div_real_mode (xr_dot_feature data components) svals;
          R = data_rotation_matrix (self_data self)
      in and_then (compute_rot_mat_inv_trans np_inv (self_params self) R (''mode_m'', ''mode_n''))
           (\<lambda>RinvT.
         and_then (xr_rename RinvT ''mode_n'' ''mode'') (\<lambda>RinvT.
         and_then (xr_dot_mode_m projections RinvT) (\<lambda>projections.
         and_then (isel_mode (data_idx_modes_sorted (self_data self)) projections) (\<lambda>projections.
      let projections = times_real_mode projections pseudo_norms;
          projections = times_mode projections (data_modes_sign (self_data self))
      in Inr projections)))))"

subsection \<open>Concrete numerical routines, for evaluation\<close>

text \<open>
  The rotation \<^verbatim>\<open>promax\<close> starts from, before any iteration: the rotation matrix
  and the correlation matrix are the identity and the loadings are unchanged.
\<close>

definition identity_matrix :: "nat \<Rightarrow> cmat" where
  "identity_matrix n = map (\<lambda>i. map (\<lambda>j. if i = j then 1 else 0) [0..<n]) [0..<n]"

definition identity_rotation ::
  "cmat \<Rightarrow> int \<Rightarrow> int \<Rightarrow> real \<Rightarrow> py_error + cmat \<times> cmat \<times> cmat" where
  "identity_rotation loadings p mi rt =
     Inr (loadings, identity_matrix (length loadings), identity_matrix (length loadings))"

text \<open>The inverse of a matrix with one or two modes, by the adjugate.\<close>

fun small_inv :: "cmat \<Rightarrow> py_error + cmat" where
  "small_inv [[a]] = (if a = 0 then Inl LinAlgError else Inr [[1 / a]])"
| "small_inv [[a, b], [c, d]] =
     (if a * d - b * c = 0 then Inl LinAlgError
      else Inr [[d / (a * d - b * c), - b / (a * d - b * c)],
                [- c / (a * d - b * c), a / (a * d - b * c)]])"
| "small_inv m = Inl LinAlgError"

text \<open>
  An \<^verbatim>\<open>argsort\<close> that is not stable: it sorts in ascending order and leaves equal
  entries in the reverse of their order.
\<close>

definition reversing_argsort :: "real list \<Rightarrow> nat list" where
  "reversing_argsort v = rev (sort_key (\<lambda>i. - (v ! i)) [0..<length v])"

definition example_backend :: backend where
  "example_backend =
     \<lparr>promax = identity_rotation, linalg_inv = small_inv, introsort = reversing_argsort\<rparr>"

text \<open>
  A fitted model of the data \<open>[[-1, 0], [0, 2]]\<close> (two samples, two features): the
  singular values are \<open>2\<close> and \<open>1\<close>, the scores are the projections of the data onto
  the components.
\<close>

definition example_model :: eof_model where
  "example_model =
     \<lparr>model_input_data = [[- 1, 0], [0, 2]],
      model_components = [[0, 1], [- 1, 0]],
      model_scores = [[0, 2], [1, 0]],
      model_norms = [2, 1],
      model_total_variance = 5,
      model_explained_variance = [4, 1],
      model_singular_values = [2, 1]\<rparr>"

subsection \<open>Analytic signal: \<^verbatim>\<open>xeofs/utils/xarray_utils.py\<close>\<close>

text \<open>
  The array \<open>y\<close> is two-dimensional (\<^verbatim>\<open>_pad_exp\<close> indexes the first row with
  \<^verbatim>\<open>[:, None]\<close>): the list of its rows along axis 0, the axis the routine pads and
  transforms.
\<close>

definition column :: "'a list list \<Rightarrow> nat \<Rightarrow> 'a list" where
  "column m f = map (\<lambda>row. row ! f) m"

text \<open>
  \<^verbatim>\<open>np.polynomial.polynomial.polyfit(x, y, deg=1)\<close>: the least-squares line of every
  column of \<open>y\<close>, as the pair of the intercepts and the slopes. numpy raises
  \<^verbatim>\<open>TypeError\<close> on an empty \<open>x\<close> and on arrays of different lengths. When all
  abscissae are equal the system has rank one; for \<open>x = [0]\<close>, the only such call
  \<^verbatim>\<open>_pad_exp\<close> makes, the least-squares solution of least norm has slope 0.
\<close>

definition polyfit1 :: "real list \<Rightarrow> real list list \<Rightarrow> py_error + real list \<times> real list" where
  "polyfit1 x y =
     (if x = [] then Inl TypeError
      else if length x \<noteq> length y then Inl TypeError
      else
        let n = real (length x);
            sx = sum_list x;
            sxx = sum_list (map (\<lambda>t. t * t) x);
            det = n * sxx - sx * sx;
            c1 = (\<lambda>f. if det = 0 then 0
                      else (n * sum_list (map2 (*) x (column y f)) - sx * sum_list (column y f)) / det);
            c0 = (\<lambda>f. (sum_list (column y f) - c1 f * sx) / n)
        in Inr (map c0 [0..<ncols y], map c1 [0..<ncols y]))"

text \<open>
  \<^verbatim>\<open>np.polynomial.polynomial.polyval(x, coefs).T\<close>: the row at abscissa \<open>t\<close> holds
  \<open>c0 + t * c1\<close> for every column.
\<close>

definition polyval :: "real list \<Rightarrow> real list \<times> real list \<Rightarrow> real list list" where
  "polyval x coefs = map (\<lambda>t. map2 (\<lambda>a b. a + t * b) (fst coefs) (snd coefs)) x"

text \<open>
  \<^verbatim>\<open>np.take(a, i, axis=0)\<close>: the row at index \<open>i\<close>, counted from the end when
  negative; \<^verbatim>\<open>IndexError\<close> out of range.
\<close>

definition np_take :: "'a list \<Rightarrow> int \<Rightarrow> py_error + 'a" where
  "np_take a i =
     (let n = int (length a); j = (if i < 0 then n + i else i)
      in if 0 \<le> j \<and> j < n then Inr (a ! nat j) else Inl IndexError)"

text \<open>
  \<^verbatim>\<open>_pad_exp\<close>, lines 209-248. \<open>pad_pre_T\<close> and \<open>pad_pos_T\<close> are
  \<^verbatim>\<open>pad_pre.T\<close> and \<^verbatim>\<open>pad_pos.T\<close>: the row at position \<open>i\<close> is the amplitude
  row times the entry \<open>i\<close> of the kernel.
\<close>

definition pad_exp :: "real list list \<Rightarrow> real \<Rightarrow> py_error + real list list" where
  "pad_exp y decay_factor =
     (let x = map real [0..<length y];
          x_ext = map of_int [- int (length x)..2 * int (length x) - 1]
      in and_then (polyfit1 x y) (\<lambda>coefs.
      let yfit = polyval x coefs;
          yfit_ext = polyval x_ext coefs;
          y_ano = map2 (map2 (-)) y yfit
      in and_then (np_take y_ano 0) (\<lambda>amp_pre.
         and_then (np_take y_ano (- 1)) (\<lambda>amp_pos.
      let exp_ext = map (\<lambda>t. exp (- t / real (length x) / decay_factor)) x;
          exp_ext_reverse = rev exp_ext;
          pad_pre_T = map (\<lambda>e. map (\<lambda>a. a * e) amp_pre) exp_ext_reverse;
          pad_pos_T = map (\<lambda>e. map (\<lambda>a. a * e) amp_pos) exp_ext;
          y_ext = pad_pre_T @ y_ano @ pad_pos_T
      in Inr (map2 (map2 (+)) y_ext yfit_ext)))))"

text \<open>
  \<^verbatim>\<open>scipy.signal.hilbert(y, axis=0)\<close>: the discrete Fourier transform of every
  column, the negative frequencies set to zero and the positive ones doubled, and the
  inverse transform; scipy raises \<^verbatim>\<open>ValueError\<close> when the axis is empty.
\<close>

definition fft :: "cvec \<Rightarrow> cvec" where
  "fft x = map (\<lambda>k. sum_list (map (\<lambda>n. x ! n * cis (- 2 * pi * real k * real n / real (length x)))
                     [0..<length x])) [0..<length x]"

definition ifft :: "cvec \<Rightarrow> cvec" where
  "ifft X = map (\<lambda>n. sum_list (map (\<lambda>k. X ! k * cis (2 * pi * real k * real n / real (length X)))
                     [0..<length X]) / of_nat (length X)) [0..<length X]"

definition hilbert_h :: "nat \<Rightarrow> nat \<Rightarrow> real" where
  "hilbert_h N k =
     (if even N then (if k = 0 \<or> k = N div 2 then 1 else if k < N div 2 then 2 else 0)
      else (if k = 0 then 1 else if k < (N + 1) div 2 then 2 else 0))"

definition hilbert_1d :: "real list \<Rightarrow> cvec" where
  "hilbert_1d x =
     ifft (map2 (\<lambda>X h. X * of_real h) (fft (map of_real x)) (map (hilbert_h (length x)) [0..<length x]))"

definition scipy_hilbert :: "real list list \<Rightarrow> py_error + cmat" where
  "scipy_hilbert y =
     (if length y = 0 then Inl ValueError
      else Inr (map (\<lambda>n. map (\<lambda>f. hilbert_1d (column y f) ! n) [0..<ncols y]) [0..<length y]))"

text \<open>
  \<^verbatim>\<open>_hilbert_transform_with_padding\<close>, lines 179-207. \<open>padding\<close> is \<^verbatim>\<open>'exp'\<close>
  (\<open>Some ''exp''\<close>), another string, or \<^verbatim>\<open>None\<close>.
\<close>

definition hilbert_transform_with_padding ::
  "real list list \<Rightarrow> string option \<Rightarrow> real \<Rightarrow> py_error + cmat" where
  "hilbert_transform_with_padding y padding decay_factor =
     (let n_samples = length y
      in and_then (if padding = Some ''exp'' then pad_exp y decay_factor else Inr y) (\<lambda>y.
         and_then (scipy_hilbert y) (\<lambda>y.
         Inr (if padding = Some ''exp'' then take n_samples (drop n_samples y) else y))))"

text \<open>
  \<^verbatim>\<open>hilbert_transform\<close>, lines 115-143: \<^verbatim>\<open>xr.apply_ufunc\<close>, a parameter here,
  applies the routine to the values of the array.
\<close>

definition hilbert_transform ::
  "((real list list \<Rightarrow> py_error + cmat) \<Rightarrow> 'x \<Rightarrow> py_error + 'c) \<Rightarrow> 'x \<Rightarrow> string option \<Rightarrow> real \<Rightarrow>
   py_error + 'c" where
  "hilbert_transform apply_ufunc data padding decay_factor =
     apply_ufunc (\<lambda>y. hilbert_transform_with_padding y padding decay_factor) data"

subsection \<open>Classes and method resolution\<close>

datatype cls =
  BaseModel | EOF | ComplexEOF | EOFRotator | ComplexEOFRotator | BaseCrossModel | MCA | ComplexMCA

text \<open>
  The method resolution order of every class, from the class statements
  \<^verbatim>\<open>class EOFRotator(EOF)\<close>, \<^verbatim>\<open>class ComplexEOFRotator(EOFRotator, ComplexEOF)\<close>,
  \<^verbatim>\<open>class MCA(_BaseCrossModel)\<close>, \<^verbatim>\<open>class ComplexMCA(MCA)\<close>, and, of
  \<^verbatim>\<open>xeofs/models/eof.py\<close>, \<^verbatim>\<open>class EOF(_BaseModel)\<close> and
  \<^verbatim>\<open>class ComplexEOF(EOF)\<close>.
\<close>

fun mro :: "cls \<Rightarrow> cls list" where
  "mro BaseModel = [BaseModel]"
| "mro EOF = [EOF, BaseModel]"
| "mro ComplexEOF = [ComplexEOF, EOF, BaseModel]"
| "mro EOFRotator = [EOFRotator, EOF, BaseModel]"
| "mro ComplexEOFRotator = [ComplexEOFRotator, EOFRotator, ComplexEOF, EOF, BaseModel]"
| "mro BaseCrossModel = [BaseCrossModel]"
| "mro MCA = [MCA, BaseCrossModel]"
| "mro ComplexMCA = [ComplexMCA, MCA, BaseCrossModel]"

text \<open>
  The methods of the claims and the classes whose body defines them. The bodies of
  \<^verbatim>\<open>EOF\<close> and \<^verbatim>\<open>ComplexEOF\<close> are in \<^verbatim>\<open>xeofs/models/eof.py\<close>; the comment of
  \<^verbatim>\<open>ComplexEOFRotator._transform_algorithm\<close> names the method of \<^verbatim>\<open>ComplexEOF\<close>.
\<close>

fun class_defines :: "cls \<Rightarrow> string \<Rightarrow> bool" where
  "class_defines EOF m = (m = ''_transform_algorithm'')"
| "class_defines ComplexEOF m = (m = ''_transform_algorithm'')"
| "class_defines EOFRotator m = (m = ''_transform_algorithm'')"
| "class_defines ComplexEOFRotator m = (m = ''_transform_algorithm'')"
| "class_defines MCA m = (m \<in> set [''transform'', ''homogeneous_patterns'', ''heterogeneous_patterns''])"
| "class_defines ComplexMCA m = (m \<in> set [''transform'', ''homogeneous_patterns'', ''heterogeneous_patterns''])"
| "class_defines BaseModel m = False"
| "class_defines BaseCrossModel m = False"

text \<open>\<^verbatim>\<open>self.m\<close> on an instance of class \<open>c\<close>: the first class of the order that defines \<open>m\<close>.\<close>

definition getattr_cls :: "cls \<Rightarrow> string \<Rightarrow> cls option" where
  "getattr_cls c m = find (\<lambda>d. class_defines d m) (mro c)"

text \<open>
  \<^verbatim>\<open>super(c, self).m\<close> on an instance of class \<open>self_cls\<close>: the first class after
  \<open>c\<close> in the order of \<open>self_cls\<close> that defines \<open>m\<close>.
\<close>

definition super_cls :: "cls \<Rightarrow> cls \<Rightarrow> string \<Rightarrow> cls option" where
  "super_cls c self_cls m = find (\<lambda>d. class_defines d m) (tl (dropWhile (\<lambda>d. d \<noteq> c) (mro self_cls)))"

text \<open>
  Modelled from the spec: \<^verbatim>\<open>ComplexEOF._transform_algorithm\<close> of
  \<^verbatim>\<open>xeofs/models/eof.py\<close>, which is not among the sources. The spec (section 7) has
  the forward transform of a complex variant raise "not implemented", and the comment of
  \<^verbatim>\<open>ComplexEOFRotator._transform_algorithm\<close> says that this method raises.
\<close>

definition ComplexEOF_transform_algorithm :: "cmat \<Rightarrow> py_error + cmat" where
  "ComplexEOF_transform_algorithm data = Inl NotImplementedError"

text \<open>
  The body of \<^verbatim>\<open>_transform_algorithm\<close> of the class \<open>c\<close>. \<open>eof_ta\<close> and
  \<open>complex_eof_ta\<close> are the bodies of \<^verbatim>\<open>EOF._transform_algorithm\<close> and
  \<^verbatim>\<open>ComplexEOF._transform_algorithm\<close>, parameters.
\<close>

definition body_transform_algorithm ::
  "(cmat \<Rightarrow> py_error + cmat) \<Rightarrow> (cmat \<Rightarrow> py_error + cmat) \<Rightarrow> (cmat \<Rightarrow> py_error + cmat) \<Rightarrow>
   cls \<Rightarrow> rotator \<Rightarrow> cmat \<Rightarrow> py_error + cmat" where
  "body_transform_algorithm eof_ta complex_eof_ta np_inv c self data =
     (if c = EOFRotator then transform_algorithm np_inv self data
      else if c = ComplexEOF then complex_eof_ta data
      else if c = EOF then eof_ta data
      else Inl AttributeError)"

text \<open>
  \<^verbatim>\<open>ComplexEOFRotator._transform_algorithm\<close>, lines 305-311:
  \<^verbatim>\<open>return super(EOFRotator, self)._transform_algorithm(data)\<close>.
\<close>

definition ComplexEOFRotator_transform_algorithm ::
  "(cmat \<Rightarrow> py_error + cmat) \<Rightarrow> (cmat \<Rightarrow> py_error + cmat) \<Rightarrow> (cmat \<Rightarrow> py_error + cmat) \<Rightarrow>
   rotator \<Rightarrow> cmat \<Rightarrow> py_error + cmat" where
  "ComplexEOFRotator_transform_algorithm eof_ta complex_eof_ta np_inv self data =
     (case super_cls EOFRotator ComplexEOFRotator ''_transform_algorithm'' of
        None \<Rightarrow> Inl AttributeError
      | Some c \<Rightarrow> body_transform_algorithm eof_ta complex_eof_ta np_inv c self data)"

subsection \<open>\<^verbatim>\<open>ComplexMCA\<close>\<close>

text \<open>\<^verbatim>\<open>ComplexMCA.transform\<close>, \<^verbatim>\<open>homogeneous_patterns\<close>, \<^verbatim>\<open>heterogeneous_patterns\<close>, lines 580-587.\<close>

definition ComplexMCA_transform :: "'d \<Rightarrow> 'd \<Rightarrow> py_error + 'r" where
  "ComplexMCA_transform data1 data2 = Inl NotImplementedError"

definition ComplexMCA_homogeneous_patterns :: "string option \<Rightarrow> real \<Rightarrow> py_error + 'r" where
  "ComplexMCA_homogeneous_patterns correction alpha = Inl NotImplementedError"

definition ComplexMCA_heterogeneous_patterns :: "string option \<Rightarrow> real \<Rightarrow> py_error + 'r" where
  "ComplexMCA_heterogeneous_patterns correction alpha = Inl NotImplementedError"

text \<open>
  The collaborators of \<^verbatim>\<open>ComplexMCA.fit\<close> that are not among the sources:
  \<^verbatim>\<open>fit_transform\<close> of a preprocessor (which returns the fitted preprocessor and the
  processed data, samples by features), \<^verbatim>\<open>xr.apply_ufunc\<close>, the fit of a
  \<^verbatim>\<open>CrossDecomposer(n_modes)\<close>, and the introsort of \<^verbatim>\<open>argsort\<close> on arrays of more
  than 16 entries.
\<close>

record decomposition =
  dec_singular_values :: "real list"
  dec_total_squared_covariance :: real
  dec_singular_vectors1 :: cmat
  dec_singular_vectors2 :: cmat

record ('raw, 'dim, 'w, 'pre) mca_env =
  fit_transform :: "'pre \<Rightarrow> 'raw \<Rightarrow> 'dim \<Rightarrow> 'w option \<Rightarrow> py_error + 'pre \<times> real list list"
  apply_ufunc :: "(real list list \<Rightarrow> py_error + cmat) \<Rightarrow> real list list \<Rightarrow> py_error + cmat"
  cross_decomposer_fit :: "int \<Rightarrow> cmat \<Rightarrow> cmat \<Rightarrow> py_error + decomposition"
  env_introsort :: "real list \<Rightarrow> nat list"

record mca_params =
  mca_n_modes :: int
  mca_padding :: "string option"
  mca_decay_factor :: real

text \<open>\<^verbatim>\<open>ComplexMCADataContainer\<close>, by keyword.\<close>

record mca_data =
  input_data1 :: cmat
  input_data2 :: cmat
  components1 :: cmat
  components2 :: cmat
  scores1 :: cmat
  scores2 :: cmat
  squared_covariance :: "real list"
  total_squared_covariance :: real
  idx_modes_sorted :: "nat list"
  norm1 :: "real list"
  norm2 :: "real list"

record 'pre complex_mca =
  mca_self_params :: mca_params
  preprocessor1 :: 'pre
  preprocessor2 :: 'pre
  mca_self_data :: "mca_data option"

text \<open>
  \<^verbatim>\<open>ComplexMCA.fit\<close>, lines 464-510: everything after the two calls of
  \<^verbatim>\<open>fit_transform\<close>, on their results.
\<close>

definition ComplexMCA_fit_processed ::
  "('raw, 'dim, 'w, 'pre) mca_env \<Rightarrow> 'pre complex_mca \<Rightarrow> 'pre \<times> real list list \<Rightarrow>
   'pre \<times> real list list \<Rightarrow> py_error + 'pre complex_mca" where
  "ComplexMCA_fit_processed env self p1 p2 =
     (let padding = mca_padding (mca_self_params self);
          decay_factor = mca_decay_factor (mca_self_params self)
      in and_then (hilbert_transform (apply_ufunc env) (snd p1) padding decay_factor)
           (\<lambda>data1_processed.
         and_then (hilbert_transform (apply_ufunc env) (snd p2) padding decay_factor)
           (\<lambda>data2_processed.
         and_then (cross_decomposer_fit env (mca_n_modes (mca_self_params self))
                     data1_processed data2_processed) (\<lambda>decomposer.
      let singular_values = dec_singular_values decomposer;
          squared_covariance = map (\<lambda>s. s\<^sup>2) singular_values;
          total_squared_covariance = dec_total_squared_covariance decomposer;
          singular_vectors1 = dec_singular_vectors1 decomposer;
          singular_vectors2 = dec_singular_vectors2 decomposer;
          norm1 = map sqrt singular_values;
          norm2 = map sqrt singular_values;
          idx_sorted_modes = rev (np_argsort (env_introsort env) squared_covariance);
          scores1 = div_real_mode (xr_dot_feature data1_processed singular_vectors1) norm1;
          scores2 = div_real_mode (xr_dot_feature data2_processed singular_vectors2) norm2
      in Inr (self\<lparr>preprocessor1 := fst p1, preprocessor2 := fst p2,
                mca_self_data := Some \<lparr>input_data1 = data1_processed,
                  input_data2 = data2_processed,
                  components1 = singular_vectors1,
                  components2 = singular_vectors2,
                  scores1 = scores1,
                  scores2 = scores2,
                  squared_covariance = squared_covariance,
                  total_squared_covariance = total_squared_covariance,
                  idx_modes_sorted = idx_sorted_modes,
                  norm1 = norm1,
                  norm2 = norm2\<rparr>\<rparr>)))))"

text \<open>
  \<^verbatim>\<open>ComplexMCA.fit\<close>, lines 442-462: the two calls of \<^verbatim>\<open>fit_transform\<close>, both
  with \<^verbatim>\<open>weights2\<close>. \<open>sample_dim\<close> is the argument \<^verbatim>\<open>dim\<close>.
\<close>

definition ComplexMCA_fit ::
  "('raw, 'dim, 'w, 'pre) mca_env \<Rightarrow> 'pre complex_mca \<Rightarrow> 'raw \<Rightarrow> 'raw \<Rightarrow> 'dim \<Rightarrow> 'w option \<Rightarrow>
   'w option \<Rightarrow> py_error + 'pre complex_mca" where
  "ComplexMCA_fit env self data1 data2 sample_dim weights1 weights2 =
     and_then (fit_transform env (preprocessor1 self) data1 sample_dim weights2) (\<lambda>p1.
     and_then (fit_transform env (preprocessor2 self) data2 sample_dim weights2) (\<lambda>p2.
     ComplexMCA_fit_processed env self p1 p2))"

subsection \<open>Sequencing\<close>

lemma and_then_Inr: "and_then x f = Inr r \<longleftrightarrow> (\<exists>v. x = Inr v \<and> f v = Inr r)"
  by (cases x) (simp_all add: and_then_def)

lemma and_then_Inr_simp: "and_then (Inr v) f = f v"
  by (simp add: and_then_def)

lemma and_then_Inl_simp: "and_then (Inl e) f = Inl e"
  by (simp add: and_then_def)

lemma xr_dot_feature_sel:
  "xr_dot_feature data (sel_modes n comps) = sel_modes n (xr_dot_feature data comps)"
  by (simp add: xr_dot_feature_def sel_modes_def take_map)

lemma sequence_map_Inr_D:
  "sequence (map f xs) = Inr vs \<Longrightarrow> list_all2 (\<lambda>x v. f x = Inr v) xs vs"
proof (induction xs arbitrary: vs)
  case Nil
  then show ?case by simp
next
  case (Cons x xs)
  from Cons.prems obtain v ws where "f x = Inr v" "sequence (map f xs) = Inr ws" "vs = v # ws"
    by (auto split: sum.splits)
  then show ?case using Cons.IH by simp
qed

lemma sequence_map_Inr_I:
  "list_all2 (\<lambda>x v. f x = Inr v) xs vs \<Longrightarrow> sequence (map f xs) = Inr vs"
  by (induction rule: list_all2_induct) simp_all

lemma sequence_map_Inr:
  "sequence (map f xs) = Inr vs \<longleftrightarrow> list_all2 (\<lambda>x v. f x = Inr v) xs vs"
  using sequence_map_Inr_D sequence_map_Inr_I by blast

lemma sequence_map_Inl:
  "sequence (map f xs) = Inl e \<Longrightarrow> \<exists>x\<in>set xs. f x = Inl e"
  by (induction xs) (auto split: sum.splits)

subsection \<open>argmax\<close>

lemma first_max_index_iff:
  "first_max_index xs i \<longleftrightarrow>
     i < length xs \<and> (\<forall>j<length xs. xs ! j \<le> xs ! i) \<and> (\<forall>j<i. xs ! j < xs ! i)"
  by (auto simp: first_max_index_def list_all_length)

lemma argmax_loop_first_max:
  "length ps = i \<Longrightarrow> best < i \<Longrightarrow> ps ! best = bv \<Longrightarrow> \<forall>j<i. ps ! j \<le> bv \<Longrightarrow>
   \<forall>j<best. ps ! j < bv \<Longrightarrow> first_max_index (ps @ xs) (argmax_loop xs i best bv)"
proof (induction xs arbitrary: ps i best bv)
  case Nil
  then show ?case by (simp add: first_max_index_iff)
next
  case (Cons x xs)
  show ?case
  proof (cases "bv < x")
    case True
    have "first_max_index ((ps @ [x]) @ xs) (argmax_loop xs (Suc i) i x)"
    proof (rule Cons.IH)
      have le: "ps ! j \<le> bv" if "j < i" for j using Cons.prems(4) that by blast
      show "\<forall>j<Suc i. (ps @ [x]) ! j \<le> x"
        using Cons.prems(1) True le by (fastforce simp: nth_append less_Suc_eq)
      show "\<forall>j<i. (ps @ [x]) ! j < x"
        using Cons.prems(1) True le by (fastforce simp: nth_append)
    qed (use Cons.prems in \<open>auto simp: nth_append\<close>)
    with True show ?thesis by simp
  next
    case False
    have "first_max_index ((ps @ [x]) @ xs) (argmax_loop xs (Suc i) best bv)"
    proof (rule Cons.IH)
      show "\<forall>j<Suc i. (ps @ [x]) ! j \<le> bv"
        using Cons.prems False by (auto simp: nth_append less_Suc_eq)
      show "\<forall>j<best. (ps @ [x]) ! j < bv"
        using Cons.prems by (auto simp: nth_append)
    qed (use Cons.prems in \<open>auto simp: nth_append\<close>)
    with False show ?thesis by simp
  qed
qed

lemma np_argmax_first_max:
  "np_argmax xs = Inr i \<Longrightarrow> first_max_index xs i"
proof (cases xs)
  case Nil
  assume "np_argmax xs = Inr i"
  with Nil show ?thesis by (simp add: np_argmax_def)
next
  case (Cons x rest)
  assume "np_argmax xs = Inr i"
  with Cons have i: "i = argmax_loop rest 1 0 x" by (simp add: np_argmax_def)
  have "first_max_index ([x] @ rest) (argmax_loop rest 1 0 x)"
    by (rule argmax_loop_first_max) auto
  with i Cons show ?thesis by simp
qed

lemma np_argmax_empty: "np_argmax xs = Inl e \<longleftrightarrow> xs = [] \<and> e = ValueError"
  by (auto simp: np_argmax_def split: list.splits)

lemma first_max_index_unique:
  "first_max_index xs i \<Longrightarrow> first_max_index xs j \<Longrightarrow> i = j"
  unfolding first_max_index_iff
  by (metis linorder_neqE_nat not_less)

subsection \<open>argsort and the mode permutation\<close>







subsection \<open>The sign of a mode\<close>

lemma modes_sign_of_Inr: "modes_sign_of L = Inr s \<longleftrightarrow> list_all2 sign_rel L s"
proof
  assume "modes_sign_of L = Inr s"
  then obtain idx where im: "idx_max_value_of L = Inr idx"
    and s: "s = map2 (\<lambda>col i. np_sign (col ! i)) L idx"
    by (auto simp: modes_sign_of_def split: sum.splits)
  from im have idx: "list_all2 (\<lambda>col i. np_argmax (map cmod col) = Inr i) L idx"
    by (simp only: idx_max_value_of_def sequence_map_Inr)
  from idx show "list_all2 sign_rel L s" unfolding s
    by (induction rule: list_all2_induct) (auto simp: sign_rel_def)
next
  assume "list_all2 sign_rel L s"
  then have "\<exists>idx. list_all2 (\<lambda>col i. np_argmax (map cmod col) = Inr i) L idx \<and>
       s = map2 (\<lambda>col i. np_sign (col ! i)) L idx"
  proof (induction rule: list_all2_induct)
    case Nil
    show ?case by simp
  next
    case (Cons col L sk s)
    then obtain i idx where "np_argmax (map cmod col) = Inr i" "sk = np_sign (col ! i)"
      "list_all2 (\<lambda>col i. np_argmax (map cmod col) = Inr i) L idx"
      "s = map2 (\<lambda>col i. np_sign (col ! i)) L idx"
      by (auto simp: sign_rel_def)
    then show ?case by (intro exI [of _ "i # idx"]) simp
  qed
  then obtain idx where idx: "list_all2 (\<lambda>col i. np_argmax (map cmod col) = Inr i) L idx"
    and s: "s = map2 (\<lambda>col i. np_sign (col ! i)) L idx" by blast
  from idx have "sequence (map (\<lambda>col. np_argmax (map cmod col)) L) = Inr idx"
    by (simp only: sequence_map_Inr)
  then show "modes_sign_of L = Inr s"
    by (simp add: modes_sign_of_def idx_max_value_of_def s)
qed

lemma np_sign_cases: "np_sign z = 1 \<or> np_sign z = - 1 \<or> np_sign z = 0"
  by (auto simp: np_sign_def sgn_real_def)

lemma np_sign_eq_0: "np_sign z = 0 \<longleftrightarrow> z = 0"
  by (cases z) (auto simp: np_sign_def sgn_real_def complex_eq_iff)

lemma np_sign_real: "Re z \<noteq> 0 \<or> Im z = 0 \<Longrightarrow> np_sign z = of_real (sgn (Re z))"
  by (auto simp: np_sign_def)

lemma cmod_times_np_sign: "z \<noteq> 0 \<Longrightarrow> cmod (w * np_sign z) = cmod w"
  using np_sign_cases [of z] np_sign_eq_0 [of z] by (auto simp: norm_mult)

lemma np_sign_times_np_sign: "z \<noteq> 0 \<Longrightarrow> np_sign (z * np_sign z) = 1"
proof -
  assume nz: "z \<noteq> 0"
  show ?thesis
  proof (cases "Re z = 0")
    case True
    with nz have im: "Im z \<noteq> 0" by (auto simp: complex_eq_iff)
    have s: "np_sign z = of_real (sgn (Im z))" using True by (simp add: np_sign_def)
    have "Re (z * np_sign z) = 0" "Im (z * np_sign z) = \<bar>Im z\<bar>"
      unfolding s using True by (simp_all add: sgn_real_def)
    then show ?thesis using im by (simp add: np_sign_def[of "z * np_sign z"] sgn_real_def)
  next
    case False
    have s: "np_sign z = of_real (sgn (Re z))" using False by (simp add: np_sign_def)
    have "Re (z * np_sign z) = \<bar>Re z\<bar>"
      unfolding s by (simp add: sgn_real_def)
    then show ?thesis using False by (simp add: np_sign_def[of "z * np_sign z"] sgn_real_def)
  qed
qed

lemma first_max_zero:
  assumes "first_max_index (map cmod col) i"
  shows "col ! i = 0 \<longleftrightarrow> list_all (\<lambda>z. z = 0) col"
proof
  assume z: "col ! i = 0"
  have "cmod x \<le> cmod (col ! i)" if "x \<in> set col" for x
    using assms that by (auto simp: first_max_index_def list_all_iff)
  with z show "list_all (\<lambda>z. z = 0) col" by (auto simp: list_all_iff)
next
  assume "list_all (\<lambda>z. z = 0) col"
  moreover have "i < length col" using assms by (simp add: first_max_index_def)
  ultimately show "col ! i = 0" by (simp add: list_all_length)
qed

lemma sign_rel_again:
  assumes "sign_rel col sk"
  shows "sign_rel (map (\<lambda>z. z * sk) col) (if list_all (\<lambda>z. z = 0) col then 0 else 1)"
proof -
  from assms obtain i where i: "np_argmax (map cmod col) = Inr i" and sk: "sk = np_sign (col ! i)"
    by (auto simp: sign_rel_def)
  have fm: "first_max_index (map cmod col) i" by (rule np_argmax_first_max [OF i])
  then have il: "i < length col" by (simp add: first_max_index_def)
  have zero: "col ! i = 0 \<longleftrightarrow> list_all (\<lambda>z. z = 0) col" by (rule first_max_zero [OF fm])
  have mags: "map cmod (map (\<lambda>z. z * sk) col) = map cmod col"
  proof (cases "col ! i = 0")
    case True
    then have "\<forall>z\<in>set col. z = 0" using zero by (simp add: list_all_iff)
    then show ?thesis by auto
  next
    case False
    then show ?thesis unfolding sk by (simp add: cmod_times_np_sign)
  qed
  have val: "np_sign (col ! i * sk) = (if list_all (\<lambda>z. z = 0) col then 0 else 1)"
  proof (cases "col ! i = 0")
    case True
    then show ?thesis using zero by (simp add: np_sign_eq_0)
  next
    case False
    then show ?thesis using zero unfolding sk by (simp add: np_sign_times_np_sign)
  qed
  have "np_argmax (map cmod (map (\<lambda>z. z * sk) col)) = Inr i" by (simp only: mags i)
  moreover have "map (\<lambda>z. z * sk) col ! i = col ! i * sk" using il by simp
  ultimately show ?thesis unfolding sign_rel_def using val by metis
qed

lemma sign_rel_absorb:
  assumes "sign_rel col sk"
  shows "sk * (if list_all (\<lambda>z. z = 0) col then 0 else 1) = sk"
proof -
  from assms obtain i where i: "np_argmax (map cmod col) = Inr i" and sk: "sk = np_sign (col ! i)"
    by (auto simp: sign_rel_def)
  have "first_max_index (map cmod col) i" by (rule np_argmax_first_max [OF i])
  then show ?thesis using first_max_zero [of col i] by (auto simp: sk np_sign_eq_0)
qed

lemmas example_eval =
  example_backend_def example_model_def identity_rotation_def identity_matrix_def sel_modes_def
  times_real_mode_def div_real_mode_def expvar_of_def idx_sort_of_def np_argsort_def isel_mode_def
  compute_rot_mat_inv_trans_def xr_rename_def xr_dot_mode_m_def xr_transpose_def mat_transpose_def
  ncols_def lincomb_def modes_sign_of_def idx_max_value_of_def np_argmax_def np_sign_def
  times_mode_def and_then_def Let_def upt_rec apply_ufunc_core_def xr_conj_def xr_dot_feature_def

lemma example_fit:
  "fit_algorithm example_backend \<lparr>n_modes = 2, power = 2, max_iter = 1000, rtol = 1 / 10 ^ 8\<rparr>
     example_model =
   Inr \<lparr>self_params = \<lparr>n_modes = 2, power = 2, max_iter = 1000, rtol = 1 / 10 ^ 8\<rparr>,
        self_model = example_model,
        self_data = \<lparr>data_input_data = [[- 1, 0], [0, 2]],
          data_components = [[0, 1], [1, 0]],
          data_scores = [[0, 2], [- 1, 0]],
          data_norms = [2, 1],
          data_explained_variance = [4, 1],
          data_total_variance = 5,
          data_idx_modes_sorted = [0, 1],
          data_rotation_matrix = \<lparr>dims = (''mode_m'', ''mode_n''), vals = [[1, 0], [0, 1]]\<rparr>,
          data_phi_matrix = \<lparr>dims = (''mode_m'', ''mode_n''), vals = [[1, 0], [0, 1]]\<rparr>,
          data_modes_sign = [1, - 1]\<rparr>\<rparr>"
  by (simp add: fit_algorithm_def example_eval)

text \<open>
  C1. The round trip: when the scores of the fitted model are the projections of its
  input data onto its components (the identity of the decomposition) and
  \<^verbatim>\<open>singular_values()\<close> returns the norms, then \<^verbatim>\<open>_transform_algorithm\<close> on
  the data used for the fit (projection onto the unrotated components, division by the
  singular values, multiplication by the inverse transpose of the rotation matrix, the
  stored permutation, the stored norms, the stored signs) returns exactly the scores that
  \<^verbatim>\<open>_fit_algorithm\<close> stored. Numbers are exact, so the results are equal and not
  only within a tolerance.
\<close>

theorem transform_reproduces_fit_scores:
  assumes fit: "fit_algorithm be ps model = Inr self"
    and svd: "xr_dot_feature (model_input_data model) (model_components model) = model_scores model"
    and sv: "model_singular_values model = model_norms model"
  shows "transform_algorithm (linalg_inv be) self (model_input_data model) =
           Inr (data_scores (self_data self))"
proof -
  from fit obtain rot_loadings rot_matrix phi_matrix where
    pm: "promax be (times_real_mode (sel_modes (n_modes ps) (model_components model))
            (map sqrt (sel_modes (n_modes ps) (model_explained_variance model))))
          (power ps) (max_iter ps) (rtol ps) = Inr (rot_loadings, rot_matrix, phi_matrix)"
    by (auto simp: fit_algorithm_def Let_def and_then_Inr)
  show ?thesis
    using fit unfolding fit_algorithm_def transform_algorithm_def Let_def pm and_then_Inr_simp
    by (auto simp: and_then_Inr and_then_Inr_simp xr_dot_feature_sel svd sv split: prod.splits)
qed

theorem transform_reproduces_fit_scores_witness:
  "\<exists>self. fit_algorithm example_backend
             \<lparr>n_modes = 2, power = 2, max_iter = 1000, rtol = 1 / 10 ^ 8\<rparr> example_model = Inr self \<and>
     xr_dot_feature (model_input_data example_model) (model_components example_model) =
       model_scores example_model \<and>
     model_singular_values example_model = model_norms example_model \<and>
     data_scores (self_data self) = [[0, 2], [- 1, 0]] \<and>
     transform_algorithm small_inv self [[- 1, 0], [0, 2]] = Inr [[0, 2], [- 1, 0]]"
proof -
  have svd: "xr_dot_feature (model_input_data example_model) (model_components example_model) =
      model_scores example_model"
    by (simp add: example_model_def xr_dot_feature_def)
  have sv: "model_singular_values example_model = model_norms example_model"
    by (simp add: example_model_def)
  obtain self where fit: "fit_algorithm example_backend
      \<lparr>n_modes = 2, power = 2, max_iter = 1000, rtol = 1 / 10 ^ 8\<rparr> example_model = Inr self"
    and sc: "data_scores (self_data self) = [[0, 2], [- 1, 0]]"
    using example_fit by simp
  have "transform_algorithm (linalg_inv example_backend) self (model_input_data example_model) =
      Inr (data_scores (self_data self))"
    by (rule transform_reproduces_fit_scores [OF fit svd sv])
  then have "transform_algorithm small_inv self [[- 1, 0], [0, 2]] = Inr [[0, 2], [- 1, 0]]"
    by (simp add: sc example_backend_def example_model_def)
  with fit svd sv sc show ?thesis by blast
qed

lemma sign_rel_spec:
  assumes "sign_rel col sk"
  shows "\<exists>i. first_max_index (map cmod col) i \<and> sk = np_sign (col ! i) \<and>
           (Re (col ! i) \<noteq> 0 \<or> Im (col ! i) = 0 \<longrightarrow> sk = of_real (sgn (Re (col ! i)))) \<and>
           (sk = 1 \<or> sk = - 1 \<or> sk = 0) \<and>
           (sk = 0 \<longleftrightarrow> list_all (\<lambda>z. z = 0) col)"
proof -
  from assms obtain i where i: "np_argmax (map cmod col) = Inr i" and sk: "sk = np_sign (col ! i)"
    by (auto simp: sign_rel_def)
  have fm: "first_max_index (map cmod col) i" by (rule np_argmax_first_max [OF i])
  have "sk = 0 \<longleftrightarrow> list_all (\<lambda>z. z = 0) col"
    using first_max_zero [OF fm] by (simp add: sk np_sign_eq_0)
  with fm sk np_sign_cases [of "col ! i"] np_sign_real [of "col ! i"] show ?thesis by blast
qed

lemma modes_sign_of_total:
  "list_all (\<lambda>col. col \<noteq> []) L \<Longrightarrow> \<exists>s. list_all2 sign_rel L s"
proof (induction L)
  case Nil
  show ?case by simp
next
  case (Cons col L)
  then obtain s where s: "list_all2 sign_rel L s" by auto
  from Cons.prems obtain i where "np_argmax (map cmod col) = Inr i"
    by (cases col) (auto simp: np_argmax_def)
  then have "sign_rel col (np_sign (col ! i))" by (auto simp: sign_rel_def)
  with s have "list_all2 sign_rel (col # L) (np_sign (col ! i) # s)" by simp
  then show ?case by blast
qed

text \<open>
  C2, as amended. When every mode has at least one feature, the sign vector exists and
  has one entry per mode; the entry of a mode is \<^verbatim>\<open>np.sign\<close> of the loading at the
  first feature index of largest magnitude, which is the sign of its real part when the
  loading is real or has a nonzero real part; it is \<open>1\<close>, \<open>-1\<close> or \<open>0\<close>, and it
  is \<open>0\<close> exactly for a mode whose loadings are all zero (zero is not treated as
  \<open>+1\<close>).
\<close>

theorem modes_sign_entries:
  assumes "list_all (\<lambda>col. col \<noteq> []) L"
  shows "\<exists>s. modes_sign_of L = Inr s \<and> length s = length L \<and>
     (\<forall>k<length L. \<exists>i. first_max_index (map cmod (L ! k)) i \<and> s ! k = np_sign (L ! k ! i) \<and>
         (Re (L ! k ! i) \<noteq> 0 \<or> Im (L ! k ! i) = 0 \<longrightarrow> s ! k = of_real (sgn (Re (L ! k ! i)))) \<and>
         (s ! k = 1 \<or> s ! k = - 1 \<or> s ! k = 0) \<and>
         (s ! k = 0 \<longleftrightarrow> list_all (\<lambda>z. z = 0) (L ! k)))"
proof -
  from modes_sign_of_total [OF assms] obtain s where s: "list_all2 sign_rel L s" by blast
  then have "modes_sign_of L = Inr s" by (simp add: modes_sign_of_Inr)
  moreover have "length s = length L" using s by (simp add: list_all2_lengthD)
  moreover have "sign_rel (L ! k) (s ! k)" if "k < length L" for k
    using s that by (simp add: list_all2_nthD)
  ultimately show ?thesis using sign_rel_spec by (intro exI [of _ s]) blast
qed

theorem modes_sign_entries_witness:
  "list_all (\<lambda>col. col \<noteq> []) [[1, - 3], [0, 0], [2 :: complex]] \<and>
   modes_sign_of [[1, - 3], [0, 0], [2]] = Inr [- 1, 0, 1] \<and>
   (\<exists>s. modes_sign_of [[1, - 3], [0, 0], [2]] = Inr s \<and> length s = 3 \<and> s ! 1 = 0)"
proof -
  have ne: "list_all (\<lambda>col. col \<noteq> []) [[1, - 3], [0, 0], [2 :: complex]]" by simp
  have ev: "modes_sign_of [[1, - 3], [0, 0], [2]] = Inr [- 1, 0, 1]"
    by (simp add: modes_sign_of_def idx_max_value_of_def np_argmax_def np_sign_def)
  from modes_sign_entries [OF ne] obtain s where
    "modes_sign_of [[1, - 3], [0, 0], [2]] = Inr s" "length s = 3"
    "s ! 1 = 0 \<longleftrightarrow> list_all (\<lambda>z. z = 0) ([[1, - 3], [0, 0], [2 :: complex]] ! 1)"
    by force
  then show ?thesis using ne ev by auto
qed

theorem modes_sign_zero_counterexample:
  "modes_sign_of [[0, 0], [3, - 4]] = Inr [0, - 1]"
  by (simp add: modes_sign_of_def idx_max_value_of_def np_argmax_def np_sign_def)




subsection \<open>The inverse transpose of the rotation matrix\<close>

lemma mat_transpose_nth:
  "a < ncols M \<Longrightarrow> b < length M \<Longrightarrow> mat_transpose M ! a ! b = M ! b ! a"
  by (simp add: mat_transpose_def)

lemma mat_transpose_length: "length (mat_transpose M) = ncols M"
  by (simp add: mat_transpose_def)

lemma ncols_map_map: "ncols (map (map f) M) = ncols M"
  by (cases M) (simp_all add: ncols_def)

lemma compute_rot_mat_inv_trans_oblique:
  assumes "dims R = (''mode_m'', ''mode_n'')" "1 < power ps"
  shows "compute_rot_mat_inv_trans np_inv ps R (''mode_m'', ''mode_n'') =
     (case np_inv (vals R) of
        Inl e \<Rightarrow> Inl e
      | Inr M \<Rightarrow> Inr \<lparr>dims = (''mode_m'', ''mode_n''), vals = mat_transpose (map (map cnj) M)\<rparr>)"
  using assms
  by (simp add: compute_rot_mat_inv_trans_def apply_ufunc_core_def xr_transpose_def xr_conj_def
      and_then_def split: sum.splits)

text \<open>
  C4. For a rotation matrix with the dimensions \<^verbatim>\<open>(mode_m, mode_n)\<close>,
  \<^verbatim>\<open>_compute_rot_mat_inv_trans\<close> returns the matrix itself when \<open>power = 1\<close>; when
  \<open>power > 1\<close> it returns the conjugate of the transpose of what \<^verbatim>\<open>np.linalg.inv\<close>
  returns for it (or the exception of \<^verbatim>\<open>np.linalg.inv\<close>): the entry \<open>(a, b)\<close> of the
  result is the complex conjugate of the entry \<open>(b, a)\<close> of the inverse.
\<close>

theorem compute_rot_mat_inv_trans_spec:
  assumes "dims R = (''mode_m'', ''mode_n'')"
  shows "(power ps = 1 \<longrightarrow> compute_rot_mat_inv_trans np_inv ps R (''mode_m'', ''mode_n'') = Inr R) \<and>
    (1 < power ps \<longrightarrow>
       compute_rot_mat_inv_trans np_inv ps R (''mode_m'', ''mode_n'') =
         (case np_inv (vals R) of
            Inl e \<Rightarrow> Inl e
          | Inr M \<Rightarrow> Inr \<lparr>dims = (''mode_m'', ''mode_n''), vals = mat_transpose (map (map cnj) M)\<rparr>)) \<and>
    (\<forall>M n. 1 < power ps \<and> np_inv (vals R) = Inr M \<and> length M = n \<and> 0 < n \<and>
            list_all (\<lambda>row. length row = n) M \<longrightarrow>
       (\<exists>T. compute_rot_mat_inv_trans np_inv ps R (''mode_m'', ''mode_n'') = Inr T \<and>
            dims T = (''mode_m'', ''mode_n'') \<and> length (vals T) = n \<and>
            (\<forall>a<n. \<forall>b<n. vals T ! a ! b = cnj (M ! b ! a))))"
proof (intro conjI impI allI)
  assume "power ps = 1"
  then show "compute_rot_mat_inv_trans np_inv ps R (''mode_m'', ''mode_n'') = Inr R"
    by (simp add: compute_rot_mat_inv_trans_def)
next
  assume "1 < power ps"
  then show "compute_rot_mat_inv_trans np_inv ps R (''mode_m'', ''mode_n'') =
         (case np_inv (vals R) of
            Inl e \<Rightarrow> Inl e
          | Inr M \<Rightarrow> Inr \<lparr>dims = (''mode_m'', ''mode_n''), vals = mat_transpose (map (map cnj) M)\<rparr>)"
    by (rule compute_rot_mat_inv_trans_oblique [OF assms])
next
  fix M n
  assume a: "1 < power ps \<and> np_inv (vals R) = Inr M \<and> length M = n \<and> 0 < n \<and>
            list_all (\<lambda>row. length row = n) M"
  let ?T = "\<lparr>dims = (''mode_m'', ''mode_n''), vals = mat_transpose (map (map cnj) M)\<rparr>"
  have nc: "ncols M = n" using a by (cases M) (auto simp: ncols_def)
  have T: "compute_rot_mat_inv_trans np_inv ps R (''mode_m'', ''mode_n'') = Inr ?T"
    using a compute_rot_mat_inv_trans_oblique [OF assms, of ps np_inv] by simp
  have rows: "length (M ! b) = n" if "b < n" for b
    using a that by (simp add: list_all_length)
  have "vals ?T ! a ! b = cnj (M ! b ! a)" if "a < n" "b < n" for a b
    using that a rows nc by (simp add: mat_transpose_nth ncols_map_map)
  moreover have "length (vals ?T) = n" by (simp add: mat_transpose_length ncols_map_map nc)
  ultimately show "\<exists>T. compute_rot_mat_inv_trans np_inv ps R (''mode_m'', ''mode_n'') = Inr T \<and>
            dims T = (''mode_m'', ''mode_n'') \<and> length (vals T) = n \<and>
            (\<forall>a<n. \<forall>b<n. vals T ! a ! b = cnj (M ! b ! a))"
    using T by (intro exI [of _ ?T]) simp
qed

theorem compute_rot_mat_inv_trans_spec_witness:
  "dims \<lparr>dims = (''mode_m'', ''mode_n''), vals = [[1, \<i>], [0, 2]]\<rparr> = (''mode_m'', ''mode_n'') \<and>
   small_inv [[1, \<i>], [0, 2]] = Inr [[1, - \<i> / 2], [0, 1 / 2]] \<and>
   compute_rot_mat_inv_trans small_inv \<lparr>n_modes = 2, power = 1, max_iter = 1000, rtol = 1 / 10 ^ 8\<rparr>
     \<lparr>dims = (''mode_m'', ''mode_n''), vals = [[1, \<i>], [0, 2]]\<rparr> (''mode_m'', ''mode_n'') =
     Inr \<lparr>dims = (''mode_m'', ''mode_n''), vals = [[1, \<i>], [0, 2]]\<rparr> \<and>
   compute_rot_mat_inv_trans small_inv \<lparr>n_modes = 2, power = 2, max_iter = 1000, rtol = 1 / 10 ^ 8\<rparr>
     \<lparr>dims = (''mode_m'', ''mode_n''), vals = [[1, \<i>], [0, 2]]\<rparr> (''mode_m'', ''mode_n'') =
     Inr \<lparr>dims = (''mode_m'', ''mode_n''), vals = [[1, 0], [\<i> / 2, 1 / 2]]\<rparr>"
proof -
  let ?R = "\<lparr>dims = (''mode_m'', ''mode_n''), vals = [[1, \<i>], [0, 2]]\<rparr>"
  let ?p1 = "\<lparr>n_modes = 2, power = 1, max_iter = 1000, rtol = 1 / 10 ^ 8\<rparr>"
  let ?p2 = "\<lparr>n_modes = 2, power = 2, max_iter = 1000, rtol = 1 / 10 ^ 8\<rparr>"
  have d: "dims ?R = (''mode_m'', ''mode_n'')" by simp
  have i: "small_inv [[1, \<i>], [0, 2]] = Inr [[1, - \<i> / 2], [0, 1 / 2]]" by simp
  have "compute_rot_mat_inv_trans small_inv ?p1 ?R (''mode_m'', ''mode_n'') = Inr ?R"
    using compute_rot_mat_inv_trans_spec [OF d, of ?p1 small_inv] by simp
  moreover have "compute_rot_mat_inv_trans small_inv ?p2 ?R (''mode_m'', ''mode_n'') =
      Inr \<lparr>dims = (''mode_m'', ''mode_n''), vals = [[1, 0], [\<i> / 2, 1 / 2]]\<rparr>"
    using compute_rot_mat_inv_trans_spec [OF d, of ?p2 small_inv]
    by (simp add: mat_transpose_def ncols_def upt_rec)
  ultimately show ?thesis using d i by blast
qed

subsection \<open>The number of modes\<close>

lemma sel_modes_all: "int (length xs) \<le> n \<Longrightarrow> sel_modes n xs = xs"
  by (simp add: sel_modes_def)

lemma map_sum_and_then:
  "map_sum id g (and_then x f) = and_then x (\<lambda>v. map_sum id g (f v))"
  by (cases x) (simp_all add: and_then_def)

lemma compute_rot_mat_inv_trans_n_modes:
  "compute_rot_mat_inv_trans np_inv (ps\<lparr>n_modes := n\<rparr>) R d = compute_rot_mat_inv_trans np_inv ps R d"
  by (simp add: compute_rot_mat_inv_trans_def)

lemma fit_algorithm_data:
  assumes "int (length (model_components model)) \<le> n"
    "int (length (model_explained_variance model)) \<le> n"
    "int (length (model_norms model)) \<le> n"
    "int (length (model_scores model)) \<le> n"
  shows "map_sum id self_data (fit_algorithm be (ps\<lparr>n_modes := n\<rparr>) model) =
     (let loadings = times_real_mode (model_components model) (map sqrt (model_explained_variance model))
      in and_then (promax be loadings (power ps) (max_iter ps) (rtol ps))
           (\<lambda>(rot_loadings, rot_matrix, phi_matrix).
      let rot_matrix = \<lparr>dims = (''mode_m'', ''mode_n''), vals = rot_matrix\<rparr>;
          phi_matrix = \<lparr>dims = (''mode_m'', ''mode_n''), vals = phi_matrix\<rparr>;
          expvar = expvar_of rot_loadings;
          idx_sort = idx_sort_of (introsort be) expvar
      in and_then (isel_mode idx_sort expvar) (\<lambda>expvar.
         and_then (isel_mode idx_sort rot_loadings) (\<lambda>rot_loadings.
      let norms = map (\<lambda>e. sqrt (e * of_int (int (length (model_input_data model)) - 1))) expvar
      in and_then (compute_rot_mat_inv_trans (linalg_inv be) ps rot_matrix (''mode_m'', ''mode_n''))
           (\<lambda>RinvT.
         and_then (xr_rename RinvT ''mode_n'' ''mode'') (\<lambda>RinvT.
         and_then (xr_dot_mode_m (div_real_mode (model_scores model) (model_norms model)) RinvT)
           (\<lambda>scores.
         and_then (isel_mode idx_sort scores) (\<lambda>scores.
         and_then (modes_sign_of rot_loadings) (\<lambda>modes_sign.
         Inr \<lparr>data_input_data = model_input_data model,
              data_components =
                times_mode (div_real_mode rot_loadings (map sqrt expvar)) modes_sign,
              data_scores = times_mode (times_real_mode scores norms) modes_sign,
              data_norms = norms,
              data_explained_variance = expvar,
              data_total_variance = model_total_variance model,
              data_idx_modes_sorted = idx_sort,
              data_rotation_matrix = rot_matrix,
              data_phi_matrix = phi_matrix,
              data_modes_sign = modes_sign\<rparr>)))))))))"
  unfolding fit_algorithm_def Let_def
  by (simp add: sel_modes_all assms map_sum_and_then compute_rot_mat_inv_trans_n_modes split_def)

text \<open>
  C6, as amended. \<^verbatim>\<open>_fit_algorithm\<close> does not compare \<^verbatim>\<open>n_modes\<close> with the number
  of modes of the model: the label slice \<^verbatim>\<open>slice(1, n_modes)\<close> is clipped. For a model
  with \<open>M\<close> modes and any \<^verbatim>\<open>n_modes\<close> of at least \<open>M\<close>, the fit computes exactly what
  the fit with \<^verbatim>\<open>n_modes = M\<close> computes: the same exception or the same fitted data,
  with the \<open>M\<close> modes there are.
\<close>

theorem fit_n_modes_clipped:
  assumes "length (model_components model) = M" "length (model_explained_variance model) = M"
    "length (model_norms model) = M" "length (model_scores model) = M" "int M \<le> n"
  shows "map_sum id self_data (fit_algorithm be (ps\<lparr>n_modes := n\<rparr>) model) =
         map_sum id self_data (fit_algorithm be (ps\<lparr>n_modes := int M\<rparr>) model)"
proof -
  have "map_sum id self_data (fit_algorithm be (ps\<lparr>n_modes := n\<rparr>) model) =
      map_sum id self_data (fit_algorithm be (ps\<lparr>n_modes := k\<rparr>) model)"
    if "int M \<le> k" for k
    using assms that by (simp only: fit_algorithm_data)
  then show ?thesis by simp
qed

theorem fit_n_modes_clipped_witness:
  "length (model_components example_model) = 2 \<and>
   length (model_explained_variance example_model) = 2 \<and>
   length (model_norms example_model) = 2 \<and>
   length (model_scores example_model) = 2 \<and> int 2 \<le> 10 \<and>
   map_sum id self_data (fit_algorithm example_backend
     \<lparr>n_modes = 10, power = 1, max_iter = 1000, rtol = 1 / 10 ^ 8\<rparr> example_model) =
   map_sum id self_data (fit_algorithm example_backend
     \<lparr>n_modes = 2, power = 1, max_iter = 1000, rtol = 1 / 10 ^ 8\<rparr> example_model)"
proof -
  have l: "length (model_components example_model) = 2"
    "length (model_explained_variance example_model) = 2"
    "length (model_norms example_model) = 2" "length (model_scores example_model) = 2"
    by (simp_all add: example_model_def)
  have n: "int 2 \<le> 10" by simp
  from fit_n_modes_clipped [OF l n,
      of example_backend "\<lparr>n_modes = 10, power = 1, max_iter = 1000, rtol = 1 / 10 ^ 8\<rparr>"]
  show ?thesis using l by simp
qed

theorem fit_n_modes_counterexample:
  "length (model_components example_model) = 2 \<and>
   map_sum id (\<lambda>self. (n_modes (self_params self), data_components (self_data self)))
     (fit_algorithm example_backend
        \<lparr>n_modes = 10, power = 1, max_iter = 1000, rtol = 1 / 10 ^ 8\<rparr> example_model) =
     Inr (10, [[0, 1], [1, 0]])"
  by (simp add: fit_algorithm_def example_eval)

subsection \<open>Applying the signs twice\<close>

lemma times_mode_Cons: "times_mode (col # a) (sk # v) = map (\<lambda>z. z * sk) col # times_mode a v"
  by (simp add: times_mode_def)

lemma times_mode_Nil: "times_mode [] v = []" "times_mode a [] = []"
  by (simp_all add: times_mode_def)

lemma sign_again_rel:
  "list_all2 sign_rel L s \<Longrightarrow>
   list_all2 sign_rel (times_mode L s) (map (\<lambda>col. if list_all (\<lambda>z. z = 0) col then 0 else 1) L)"
  by (induction rule: list_all2_induct) (simp_all add: times_mode_Nil times_mode_Cons sign_rel_again)

lemma sign_again_absorb:
  "list_all2 sign_rel L s \<Longrightarrow>
   times_mode (times_mode a s) (map (\<lambda>col. if list_all (\<lambda>z. z = 0) col then 0 else 1) L) =
   times_mode a s"
proof (induction arbitrary: a rule: list_all2_induct)
  case Nil
  show ?case by (simp add: times_mode_Nil)
next
  case (Cons col L sk s)
  show ?case
  proof (cases a)
    case Nil
    then show ?thesis by (simp add: times_mode_Nil)
  next
    case (Cons c a')
    have "z * sk * (if list_all (\<lambda>z. z = 0) col then 0 else 1) = z * sk" for z
      using sign_rel_absorb [OF Cons.hyps(1)] by (simp add: mult.assoc)
    then show ?thesis using Cons Cons.IH [of a'] by (simp add: times_mode_Cons)
  qed
qed

text \<open>
  C8, as amended. When the sign vector \<open>s\<close> of the loadings \<open>L\<close> has been applied,
  recomputing the sign vector of the signed loadings yields \<open>+1\<close> for every mode whose
  loadings are not all zero and \<open>0\<close> for a mode whose loadings are all zero; applying the
  recomputed vector leaves the signed loadings, and any scores signed with \<open>s\<close>,
  unchanged.
\<close>

theorem sign_normalization_idempotent:
  assumes "modes_sign_of L = Inr s"
  shows "modes_sign_of (times_mode L s) =
           Inr (map (\<lambda>col. if list_all (\<lambda>z. z = 0) col then 0 else 1) L) \<and>
         times_mode (times_mode L s) (map (\<lambda>col. if list_all (\<lambda>z. z = 0) col then 0 else 1) L) =
           times_mode L s \<and>
         times_mode (times_mode scores s)
             (map (\<lambda>col. if list_all (\<lambda>z. z = 0) col then 0 else 1) L) =
           times_mode scores s"
proof -
  from assms have r: "list_all2 sign_rel L s" by (simp add: modes_sign_of_Inr)
  then show ?thesis
    by (simp add: modes_sign_of_Inr sign_again_rel sign_again_absorb)
qed

theorem sign_normalization_idempotent_witness:
  "modes_sign_of [[0, 0], [1, - 2]] = Inr [0, - 1] \<and>
   times_mode [[0, 0], [1, - 2]] [0, - 1] = [[0, 0], [- 1, 2]] \<and>
   modes_sign_of [[0, 0], [- 1, 2]] = Inr [0, 1] \<and>
   times_mode [[0, 0], [- 1, 2]] [0, 1] = [[0, 0], [- 1, 2]]"
proof -
  have s: "modes_sign_of [[0, 0], [1, - 2]] = Inr [0, - 1]"
    by (simp add: modes_sign_of_def idx_max_value_of_def np_argmax_def np_sign_def)
  have t: "times_mode [[0, 0], [1, - 2]] [0, - 1] = [[0, 0], [- 1, 2]]"
    by (simp add: times_mode_def)
  from sign_normalization_idempotent [OF s, of "[]"] show ?thesis
    using s by (simp add: t)
qed

theorem sign_recomputed_zero_counterexample:
  "modes_sign_of [[0, 0], [1, 2]] = Inr [0, 1] \<and>
   times_mode [[0, 0], [1, 2]] [0, 1] = [[0, 0], [1, 2]] \<and>
   modes_sign_of (times_mode [[0, 0], [1, 2]] [0, 1]) = Inr [0, 1]"
  by (simp add: modes_sign_of_def idx_max_value_of_def np_argmax_def np_sign_def times_mode_def)

subsection \<open>The padded series and the analytic signal\<close>

lemma nth_map2: "i < length xs \<Longrightarrow> i < length ys \<Longrightarrow> map2 f xs ys ! i = f (xs ! i) (ys ! i)"
  by simp

lemma ncols_rect: "y \<noteq> [] \<Longrightarrow> list_all (\<lambda>row. length row = F) y \<Longrightarrow> ncols y = F"
  by (cases y) (simp_all add: ncols_def)

lemma polyfit1_Inr:
  assumes "x \<noteq> []" "length x = length y"
  shows "\<exists>c0 c1. polyfit1 x y = Inr (c0, c1) \<and> length c0 = ncols y \<and> length c1 = ncols y"
  using assms by (simp add: polyfit1_def Let_def)

lemma polyval_length: "length (polyval x coefs) = length x"
  by (simp add: polyval_def)

lemma polyval_nth:
  "i < length x \<Longrightarrow> polyval x (c0, c1) ! i = map2 (\<lambda>a b. a + x ! i * b) c0 c1"
  by (simp add: polyval_def)

lemma np_take_first: "a \<noteq> [] \<Longrightarrow> np_take a 0 = Inr (a ! 0)"
  by (simp add: np_take_def Let_def)

lemma np_take_last: "a \<noteq> [] \<Longrightarrow> np_take a (- 1) = Inr (a ! (length a - 1))"
proof -
  assume "a \<noteq> []"
  then have "nat (int (length a) - 1) = length a - 1" "0 < length a" by (simp_all add: nat_diff_distrib)
  then show ?thesis by (simp add: np_take_def Let_def)
qed

lemma x_ext_length: "length (map real_of_int [- int N..2 * int N - 1]) = 3 * N"
  by simp

lemma x_ext_nth: "j < 3 * N \<Longrightarrow> map real_of_int [- int N..2 * int N - 1] ! j = real j - real N"
  by (simp add: nth_upto)

lemma scipy_hilbert_Inr:
  "y \<noteq> [] \<Longrightarrow> \<exists>h. scipy_hilbert y = Inr h \<and> length h = length y"
  by (simp add: scipy_hilbert_def)

lemma scipy_hilbert_Nil: "scipy_hilbert [] = Inl ValueError"
  by (simp add: scipy_hilbert_def)

lemma pad_exp_Nil: "pad_exp [] d = Inl TypeError"
  by (simp add: pad_exp_def polyfit1_def and_then_def)

text \<open>The padded series, for a rectangular array with at least one row.\<close>

lemma pad_exp_rows:
  assumes ne: "y \<noteq> []" and rect: "list_all (\<lambda>row. length row = F) y"
  shows "\<exists>c0 c1 y_ext.
      polyfit1 (map real [0..<length y]) y = Inr (c0, c1) \<and> length c0 = F \<and> length c1 = F \<and>
      pad_exp y d = Inr y_ext \<and> length y_ext = 3 * length y \<and>
      (\<forall>i<length y. \<forall>f<F. y_ext ! i ! f =
          (y ! 0 ! f - (c0 ! f + 0 * c1 ! f)) * exp (- real (length y - 1 - i) / real (length y) / d)
            + (c0 ! f + (real i - real (length y)) * c1 ! f)) \<and>
      (\<forall>i<length y. y_ext ! (length y + i) = y ! i) \<and>
      (\<forall>i<length y. \<forall>f<F. y_ext ! (2 * length y + i) ! f =
          (y ! (length y - 1) ! f - (c0 ! f + real (length y - 1) * c1 ! f))
              * exp (- real i / real (length y) / d)
            + (c0 ! f + (real (length y) + real i) * c1 ! f))"
proof -
  define N where "N = length y"
  define x where "x = map real [0..<N]"
  define x_ext where "x_ext = map real_of_int [- int (length x)..2 * int (length x) - 1]"
  have Npos: "0 < N" using ne by (simp add: N_def)
  have lx: "length x = N" by (simp add: x_def)
  have x_ext: "x_ext = map real_of_int [- int N..2 * int N - 1]" by (simp add: x_ext_def lx)
  have xn: "x ! i = real i" if "i < N" for i using that by (simp add: x_def)
  have F: "ncols y = F" using ne rect by (rule ncols_rect)
  have rows: "length (y ! i) = F" if "i < N" for i
    using rect that by (simp add: list_all_length N_def)
  have xne: "x \<noteq> []" using lx Npos by auto
  have "length x = length y" by (simp add: lx N_def)
  from polyfit1_Inr [OF xne this]
  obtain c0 c1 where pf: "polyfit1 x y = Inr (c0, c1)" and l0: "length c0 = F" and l1: "length c1 = F"
    unfolding F by blast
  define yfit where "yfit = polyval x (c0, c1)"
  define yfit_ext where "yfit_ext = polyval x_ext (c0, c1)"
  define y_ano where "y_ano = map2 (map2 (-)) y yfit"
  define exp_ext where "exp_ext = map (\<lambda>t. exp (- t / real (length x) / d)) x"
  define pad_pre_T where "pad_pre_T = map (\<lambda>e. map (\<lambda>a. a * e) (y_ano ! 0)) (rev exp_ext)"
  define pad_pos_T where "pad_pos_T = map (\<lambda>e. map (\<lambda>a. a * e) (y_ano ! (N - 1))) exp_ext"
  define y_ext0 where "y_ext0 = pad_pre_T @ y_ano @ pad_pos_T"
  define y_ext where "y_ext = map2 (map2 (+)) y_ext0 yfit_ext"
  have lfit: "length yfit = N" by (simp add: yfit_def polyval_length lx)
  have fit_row: "yfit ! i = map2 (\<lambda>a b. a + real i * b) c0 c1" if "i < N" for i
    using that by (simp add: yfit_def polyval_nth lx xn)
  have lext: "length yfit_ext = 3 * N" by (simp add: yfit_ext_def polyval_length x_ext)
  have ext_row: "yfit_ext ! j = map2 (\<lambda>a b. a + (real j - real N) * b) c0 c1" if "j < 3 * N" for j
    using that by (simp add: yfit_ext_def polyval_nth x_ext nth_upto)
  have lano: "length y_ano = N" by (simp add: y_ano_def lfit N_def)
  have ano_row: "y_ano ! i = map2 (-) (y ! i) (yfit ! i)" if "i < N" for i
    using that by (simp add: y_ano_def lfit N_def)
  have ano_len: "length (y_ano ! i) = F" if "i < N" for i
    using that by (simp add: ano_row fit_row rows l0 l1)
  have ano_val: "y_ano ! i ! f = y ! i ! f - (c0 ! f + real i * c1 ! f)" if "i < N" "f < F" for i f
    using that by (simp add: ano_row fit_row rows l0 l1)
  have ano_ne: "y_ano \<noteq> []" using lano Npos by auto
  have t0: "np_take y_ano 0 = Inr (y_ano ! 0)" by (rule np_take_first [OF ano_ne])
  have t1: "np_take y_ano (- 1) = Inr (y_ano ! (N - 1))"
    using np_take_last [OF ano_ne] by (simp add: lano)
  have pe: "pad_exp y d = Inr y_ext"
    apply (simp only: pad_exp_def Let_def)
    apply (simp only: N_def [symmetric])
    apply (simp only: x_def [symmetric])
    apply (simp only: x_ext_def [symmetric] pf and_then_Inr_simp)
    apply (simp only: yfit_def [symmetric] yfit_ext_def [symmetric])
    apply (simp only: y_ano_def [symmetric])
    apply (simp only: t0 t1 and_then_Inr_simp)
    apply (simp only: exp_ext_def [symmetric])
    apply (simp only: pad_pre_T_def [symmetric] pad_pos_T_def [symmetric])
    apply (simp only: y_ext0_def [symmetric])
    apply (simp only: y_ext_def [symmetric])
    done
  have lexp: "length exp_ext = N" by (simp add: exp_ext_def lx)
  have expn: "exp_ext ! i = exp (- real i / real N / d)" if "i < N" for i
    using that by (simp add: exp_ext_def lx xn)
  have revn: "rev exp_ext ! i = exp (- real (N - 1 - i) / real N / d)" if "i < N" for i
  proof -
    have "rev exp_ext ! i = exp_ext ! (N - Suc i)" using that by (simp add: rev_nth lexp)
    also have "\<dots> = exp (- real (N - Suc i) / real N / d)" using that by (intro expn) simp
    finally show ?thesis by simp
  qed
  have lpre: "length pad_pre_T = N" by (simp add: pad_pre_T_def lexp)
  have lpos: "length pad_pos_T = N" by (simp add: pad_pos_T_def lexp)
  have l0': "length y_ext0 = 3 * N" by (simp add: y_ext0_def lpre lpos lano)
  have lyext: "length y_ext = 3 * N" by (simp add: y_ext_def l0' lext)
  have ext_nth: "y_ext ! j = map2 (+) (y_ext0 ! j) (yfit_ext ! j)" if "j < 3 * N" for j
    using that by (simp add: y_ext_def l0' lext)
  have pre: "y_ext ! i ! f =
      (y ! 0 ! f - (c0 ! f + 0 * c1 ! f)) * exp (- real (N - 1 - i) / real N / d)
        + (c0 ! f + (real i - real N) * c1 ! f)" if "i < N" "f < F" for i f
  proof -
    have "y_ext0 ! i = map (\<lambda>a. a * exp (- real (N - 1 - i) / real N / d)) (y_ano ! 0)"
      using that by (simp add: y_ext0_def nth_append lpre pad_pre_T_def lexp revn)
    moreover have "i < 3 * N" using that by simp
    ultimately show ?thesis
      using that Npos by (simp add: ext_nth ext_row ano_len ano_val l0 l1)
  qed
  have mid: "y_ext ! (N + i) = y ! i" if "i < N" for i
  proof -
    have "y_ext0 ! (N + i) = y_ano ! i"
      using that by (simp add: y_ext0_def nth_append lpre lano)
    moreover have "N + i < 3 * N" using that by simp
    ultimately have "y_ext ! (N + i) = map2 (+) (y_ano ! i) (map2 (\<lambda>a b. a + real i * b) c0 c1)"
      by (simp add: ext_nth ext_row)
    also have "\<dots> = y ! i"
      using that by (intro nth_equalityI) (simp_all add: ano_len ano_val rows l0 l1)
    finally show ?thesis .
  qed
  have pos: "y_ext ! (2 * N + i) ! f =
      (y ! (N - 1) ! f - (c0 ! f + real (N - 1) * c1 ! f)) * exp (- real i / real N / d)
        + (c0 ! f + (real N + real i) * c1 ! f)" if "i < N" "f < F" for i f
  proof -
    have "y_ext0 ! (2 * N + i) = map (\<lambda>a. a * exp (- real i / real N / d)) (y_ano ! (N - 1))"
      using that by (simp add: y_ext0_def nth_append lpre lano pad_pos_T_def lexp expn)
    moreover have "2 * N + i < 3 * N" using that by simp
    ultimately show ?thesis
      using that Npos by (simp add: ext_nth ext_row ano_len ano_val l0 l1)
  qed
  show ?thesis
    using pf l0 l1 pe lyext pre mid pos unfolding x_def N_def by blast
qed


lemma pad_exp_length:
  assumes "y \<noteq> []"
  shows "\<exists>y_ext. pad_exp y d = Inr y_ext \<and> length y_ext = 3 * length y"
proof -
  let ?x = "map real [0..<length y]"
  have xne: "?x \<noteq> []" using assms by simp
  have "length ?x = length y" by simp
  from polyfit1_Inr [OF xne this] obtain c0 c1 where pf: "polyfit1 ?x y = Inr (c0, c1)" by blast
  let ?ano = "map2 (map2 (-)) y (polyval ?x (c0, c1))"
  have lano: "length ?ano = length y" by (simp add: polyval_length)
  then have ne: "?ano \<noteq> []" using assms by (metis length_0_conv)
  show ?thesis
    unfolding pad_exp_def Let_def
    by (simp add: pf and_then_Inr_simp np_take_first [OF ne] np_take_last [OF ne] polyval_length)
qed

lemma hilbert_transform_with_padding_returns:
  assumes "y \<noteq> []"
  shows "\<exists>r. hilbert_transform_with_padding y padding d = Inr r \<and> length r = length y"
proof (cases "padding = Some ''exp''")
  case True
  from pad_exp_length [OF assms] obtain y_ext where
    pe: "pad_exp y d = Inr y_ext" and le: "length y_ext = 3 * length y" by blast
  then have "y_ext \<noteq> []" using assms by auto
  from scipy_hilbert_Inr [OF this] obtain h where
    h: "scipy_hilbert y_ext = Inr h" and lh: "length h = length y_ext" by blast
  show ?thesis
    using True by (simp add: hilbert_transform_with_padding_def Let_def pe h and_then_Inr_simp lh le)
next
  case False
  from scipy_hilbert_Inr [OF assms] obtain h where
    h: "scipy_hilbert y = Inr h" and lh: "length h = length y" by blast
  show ?thesis
    using False by (simp add: hilbert_transform_with_padding_def Let_def h and_then_Inr_simp lh)
qed

lemma hilbert_transform_with_padding_empty:
  "isl (hilbert_transform_with_padding [] padding d)"
  by (simp add: hilbert_transform_with_padding_def Let_def pad_exp_Nil scipy_hilbert_Nil and_then_def)

text \<open>
  C5. For an array \<open>y\<close> of \<open>N \<ge> 1\<close> rows of \<open>F\<close> columns and exponential padding,
  with \<open>c0\<close> and \<open>c1\<close> the intercepts and slopes of the fitted line of every column:
  \<^verbatim>\<open>_pad_exp\<close> returns a series of \<open>3 N\<close> rows; row \<open>i\<close> of the leading pad is the
  detrended first row times the reversed kernel \<open>exp (- (N - 1 - i) / N / decay_factor)\<close>
  plus the trend at \<open>i - N\<close>; the rows \<open>N\<close> to \<open>2 N - 1\<close> are the rows of \<open>y\<close>; row \<open>i\<close>
  of the trailing pad is the detrended last row times \<open>exp (- i / N / decay_factor)\<close>
  plus the trend at \<open>N + i\<close>. The routine applies the Hilbert transform to that series and
  returns the rows \<open>N\<close> to \<open>2 N - 1\<close> of the transform, \<open>N\<close> rows.
\<close>

theorem analytic_signal_exp_padding:
  assumes "y \<noteq> []" and "list_all (\<lambda>row. length row = F) y"
  shows "\<exists>c0 c1 y_ext h.
      polyfit1 (map real [0..<length y]) y = Inr (c0, c1) \<and> length c0 = F \<and> length c1 = F \<and>
      pad_exp y d = Inr y_ext \<and> length y_ext = 3 * length y \<and>
      (\<forall>i<length y. \<forall>f<F. y_ext ! i ! f =
          (y ! 0 ! f - (c0 ! f + 0 * c1 ! f)) * exp (- real (length y - 1 - i) / real (length y) / d)
            + (c0 ! f + (real i - real (length y)) * c1 ! f)) \<and>
      (\<forall>i<length y. y_ext ! (length y + i) = y ! i) \<and>
      (\<forall>i<length y. \<forall>f<F. y_ext ! (2 * length y + i) ! f =
          (y ! (length y - 1) ! f - (c0 ! f + real (length y - 1) * c1 ! f))
              * exp (- real i / real (length y) / d)
            + (c0 ! f + (real (length y) + real i) * c1 ! f)) \<and>
      scipy_hilbert y_ext = Inr h \<and> length h = 3 * length y \<and>
      hilbert_transform_with_padding y (Some ''exp'') d = Inr (take (length y) (drop (length y) h)) \<and>
      length (take (length y) (drop (length y) h)) = length y \<and>
      (\<forall>i<length y. take (length y) (drop (length y) h) ! i = h ! (length y + i))"
proof -
  from pad_exp_rows [OF assms, of d] obtain c0 c1 y_ext where
    pf: "polyfit1 (map real [0..<length y]) y = Inr (c0, c1)" "length c0 = F" "length c1 = F"
    and pe: "pad_exp y d = Inr y_ext" and le: "length y_ext = 3 * length y"
    and pre: "\<forall>i<length y. \<forall>f<F. y_ext ! i ! f =
          (y ! 0 ! f - (c0 ! f + 0 * c1 ! f)) * exp (- real (length y - 1 - i) / real (length y) / d)
            + (c0 ! f + (real i - real (length y)) * c1 ! f)"
    and mid: "\<forall>i<length y. y_ext ! (length y + i) = y ! i"
    and pos: "\<forall>i<length y. \<forall>f<F. y_ext ! (2 * length y + i) ! f =
          (y ! (length y - 1) ! f - (c0 ! f + real (length y - 1) * c1 ! f))
              * exp (- real i / real (length y) / d)
            + (c0 ! f + (real (length y) + real i) * c1 ! f)"
    by blast
  have "y_ext \<noteq> []" using le assms(1) by auto
  from scipy_hilbert_Inr [OF this] obtain h where
    h: "scipy_hilbert y_ext = Inr h" and lh: "length h = 3 * length y" using le by auto
  have res: "hilbert_transform_with_padding y (Some ''exp'') d =
      Inr (take (length y) (drop (length y) h))"
    by (simp add: hilbert_transform_with_padding_def Let_def pe h and_then_Inr_simp)
  have lr: "length (take (length y) (drop (length y) h)) = length y" by (simp add: lh)
  have nr: "\<forall>i<length y. take (length y) (drop (length y) h) ! i = h ! (length y + i)"
    by (simp add: lh)
  from pf pe le pre mid pos h lh res lr nr show ?thesis by blast
qed

theorem analytic_signal_exp_padding_witness:
  "[[1], [3 :: real]] \<noteq> [] \<and> list_all (\<lambda>row. length row = 1) [[1], [3 :: real]] \<and>
   (\<exists>y_ext h. pad_exp [[1], [3]] (1 / 5) = Inr y_ext \<and> length y_ext = 6 \<and>
      y_ext ! 2 = [1] \<and> y_ext ! 3 = [3] \<and> scipy_hilbert y_ext = Inr h \<and>
      hilbert_transform_with_padding [[1], [3]] (Some ''exp'') (1 / 5) = Inr (take 2 (drop 2 h)))"
proof -
  let ?y = "[[1], [3 :: real]]"
  have ne: "?y \<noteq> []" by simp
  have rect: "list_all (\<lambda>row. length row = 1) ?y" by simp
  from analytic_signal_exp_padding [OF ne rect, of "1 / 5"] obtain y_ext h where
    pe: "pad_exp ?y (1 / 5) = Inr y_ext" and le: "length y_ext = 3 * length ?y"
    and mid: "\<forall>i<length ?y. y_ext ! (length ?y + i) = ?y ! i"
    and h: "scipy_hilbert y_ext = Inr h"
    and res: "hilbert_transform_with_padding ?y (Some ''exp'') (1 / 5) =
        Inr (take (length ?y) (drop (length ?y) h))"
    by blast
  have l6: "length y_ext = 6" using le by simp
  have "y_ext ! (length ?y + 0) = ?y ! 0" "y_ext ! (length ?y + 1) = ?y ! 1"
    using mid by simp_all
  then have m: "y_ext ! 2 = [1]" "y_ext ! 3 = [3]"
    by (simp_all add: numeral_2_eq_2 numeral_3_eq_3)
  have r: "hilbert_transform_with_padding ?y (Some ''exp'') (1 / 5) = Inr (take 2 (drop 2 h))"
    using res by (simp add: numeral_2_eq_2)
  from pe l6 m h r ne rect show ?thesis by blast
qed

text \<open>
  C7, as amended. \<^verbatim>\<open>_hilbert_transform_with_padding\<close> validates neither the number
  of samples nor \<^verbatim>\<open>decay_factor\<close>. An empty input (no sample) fails, with the exception
  of the numerical library; every input of at least one sample returns a result with as
  many samples as the input, for every \<^verbatim>\<open>decay_factor\<close>, positive or not, and for
  either padding.
\<close>

theorem analytic_signal_no_validation:
  "(y = [] \<longrightarrow> isl (hilbert_transform_with_padding y padding d)) \<and>
   (y \<noteq> [] \<longrightarrow> (\<exists>r. hilbert_transform_with_padding y padding d = Inr r \<and> length r = length y))"
  using hilbert_transform_with_padding_empty hilbert_transform_with_padding_returns by blast

theorem analytic_signal_no_validation_witness:
  "isl (hilbert_transform_with_padding [] (Some ''exp'') (1 / 5)) \<and>
   (\<exists>r. hilbert_transform_with_padding [[1], [2], [4]] None 0 = Inr r \<and> length r = 3)"
  using analytic_signal_no_validation [of "[]" "Some ''exp''" "1 / 5"]
    analytic_signal_no_validation [of "[[1], [2], [4]]" None 0]
  by (simp add: numeral_3_eq_3)

theorem analytic_signal_validation_counterexample:
  "\<not> isl (hilbert_transform_with_padding [[1], [2]] (Some ''exp'') (- 1)) \<and>
   \<not> isl (hilbert_transform_with_padding [[1]] (Some ''exp'') (1 / 5)) \<and>
   map_sum id length (hilbert_transform_with_padding [[1], [2]] (Some ''exp'') (- 1)) = Inr 2 \<and>
   map_sum id length (hilbert_transform_with_padding [[1]] (Some ''exp'') (1 / 5)) = Inr 1"
proof -
  have "\<exists>r. hilbert_transform_with_padding [[1], [2]] (Some ''exp'') (- 1) = Inr r \<and>
      length r = length [[1], [2 :: real]]"
    by (rule hilbert_transform_with_padding_returns) simp
  moreover have "\<exists>r. hilbert_transform_with_padding [[1]] (Some ''exp'') (1 / 5) = Inr r \<and>
      length r = length [[1 :: real]]"
    by (rule hilbert_transform_with_padding_returns) simp
  ultimately show ?thesis by auto
qed

subsection \<open>Complex variants\<close>

text \<open>
  C9. An instance of \<^verbatim>\<open>ComplexEOFRotator\<close> runs its own \<^verbatim>\<open>_transform_algorithm\<close>,
  whose \<^verbatim>\<open>super(EOFRotator, self)\<close> call resolves to \<^verbatim>\<open>ComplexEOF\<close>: it returns
  what \<^verbatim>\<open>ComplexEOF._transform_algorithm\<close> returns, never the projection of
  \<^verbatim>\<open>EOFRotator\<close>, and with that method raising it raises
  \<^verbatim>\<open>NotImplementedError\<close>; an instance of \<^verbatim>\<open>ComplexMCA\<close> runs its own
  \<^verbatim>\<open>transform\<close>, \<^verbatim>\<open>homogeneous_patterns\<close> and \<^verbatim>\<open>heterogeneous_patterns\<close>, each
  of which raises \<^verbatim>\<open>NotImplementedError\<close>. None returns a value.
\<close>

theorem complex_variants_not_implemented:
  "getattr_cls ComplexEOFRotator ''_transform_algorithm'' = Some ComplexEOFRotator \<and>
   super_cls EOFRotator ComplexEOFRotator ''_transform_algorithm'' = Some ComplexEOF \<and>
   ComplexEOFRotator_transform_algorithm eof_ta complex_eof_ta np_inv self data =
     complex_eof_ta data \<and>
   ComplexEOFRotator_transform_algorithm eof_ta ComplexEOF_transform_algorithm np_inv self data =
     Inl NotImplementedError \<and>
   getattr_cls ComplexMCA ''transform'' = Some ComplexMCA \<and>
   getattr_cls ComplexMCA ''homogeneous_patterns'' = Some ComplexMCA \<and>
   getattr_cls ComplexMCA ''heterogeneous_patterns'' = Some ComplexMCA \<and>
   ComplexMCA_transform data1 data2 = Inl NotImplementedError \<and>
   ComplexMCA_homogeneous_patterns correction alpha = Inl NotImplementedError \<and>
   ComplexMCA_heterogeneous_patterns correction alpha = Inl NotImplementedError"
  by (simp add: getattr_cls_def super_cls_def ComplexEOFRotator_transform_algorithm_def
      body_transform_algorithm_def ComplexEOF_transform_algorithm_def ComplexMCA_transform_def
      ComplexMCA_homogeneous_patterns_def ComplexMCA_heterogeneous_patterns_def)

text \<open>
  C10. \<^verbatim>\<open>ComplexMCA.fit\<close> does not depend on \<^verbatim>\<open>weights1\<close>: for any two values of
  \<^verbatim>\<open>weights1\<close> and all other arguments equal it returns the same result. The left data
  are preprocessed with \<^verbatim>\<open>weights2\<close>, as are the right data.
\<close>

theorem complex_mca_fit_ignores_weights1:
  "ComplexMCA_fit env self data1 data2 sample_dim weights1 weights2 =
     ComplexMCA_fit env self data1 data2 sample_dim weights1' weights2 \<and>
   ComplexMCA_fit env self data1 data2 sample_dim weights1 weights2 =
     and_then (fit_transform env (preprocessor1 self) data1 sample_dim weights2) (\<lambda>p1.
     and_then (fit_transform env (preprocessor2 self) data2 sample_dim weights2) (\<lambda>p2.
     ComplexMCA_fit_processed env self p1 p2))"
  by (simp add: ComplexMCA_fit_def)

subsection \<open>What the fit stores\<close>

lemma isel_mode_Inr: "isel_mode idx xs = Inr ys \<Longrightarrow> ys = map (\<lambda>i. xs ! i) idx"
  by (simp add: isel_mode_def split: if_splits)

text \<open>
  The permutation, the sign vector and the rotation matrix that \<^verbatim>\<open>_fit_algorithm\<close>
  stores are those of the steps above, on the loadings that \<^verbatim>\<open>promax\<close> returned.
\<close>

lemma fit_algorithm_stores:
  assumes "fit_algorithm be ps model = Inr self"
  shows "\<exists>rot_loadings rot_matrix phi_matrix.
     promax be (times_real_mode (sel_modes (n_modes ps) (model_components model))
            (map sqrt (sel_modes (n_modes ps) (model_explained_variance model))))
          (power ps) (max_iter ps) (rtol ps) = Inr (rot_loadings, rot_matrix, phi_matrix) \<and>
     data_idx_modes_sorted (self_data self) =
       idx_sort_of (introsort be) (expvar_of rot_loadings) \<and>
     modes_sign_of
         (map (\<lambda>i. rot_loadings ! i) (idx_sort_of (introsort be) (expvar_of rot_loadings))) =
       Inr (data_modes_sign (self_data self)) \<and>
     data_rotation_matrix (self_data self) = \<lparr>dims = (''mode_m'', ''mode_n''), vals = rot_matrix\<rparr> \<and>
     self_params self = ps \<and> self_model self = model"
  using assms unfolding fit_algorithm_def Let_def
  by (auto simp: and_then_Inr dest!: isel_mode_Inr split: prod.splits)

end
